theory Spec2Isabelle
  imports Main "HOL-Library.Char_ord" "HOL-Library.List_Lexorder" "HOL-Library.Sublist"
begin

section \<open>xkcd-daily: scraper, README updater and display script\<close>

text \<open>
  A Python \<open>str\<close> is modelled by \<open>string\<close>, the list of the bytes of its UTF-8
  encoding. Every string operation the repository uses (membership of an ASCII character,
  \<open>split\<close> and \<open>replace\<close> on an ASCII character, \<open>startswith\<close> of an ASCII prefix,
  concatenation, comparison) gives the same result on the UTF-8 bytes as on the code
  points. \<open>bytes\<close> are byte lists as well.
\<close>

subsection \<open>Python built-ins used by the source\<close>

datatype py_error =
    AttributeError string
  | KeyError string
  | TypeError string
  | IndexError string
  | NameError string
  | OSError string
  | ValueError string
  | ModuleNotFoundError string
  | UnicodeEncodeError string
  | LocationParseError string

text \<open>\<open>repr\<close> of a plain name or key: the text in single quotes.\<close>

definition quoted :: "string \<Rightarrow> string" where
  "quoted s = [CHR 0x27] @ s @ [CHR 0x27]"

text \<open>\<open>str(e)\<close> of an exception: its message; a \<open>KeyError\<close> shows the repr of the key.\<close>

fun str_of_error :: "py_error \<Rightarrow> string" where
  "str_of_error (AttributeError m) = m"
| "str_of_error (KeyError k) = quoted k"
| "str_of_error (TypeError m) = m"
| "str_of_error (IndexError m) = m"
| "str_of_error (NameError m) = m"
| "str_of_error (OSError m) = m"
| "str_of_error (ValueError m) = m"
| "str_of_error (ModuleNotFoundError m) = m"
| "str_of_error (UnicodeEncodeError m) = m"
| "str_of_error (LocationParseError m) = m"

text \<open>\<open>s.startswith(p)\<close>\<close>

definition startswith :: "string \<Rightarrow> string \<Rightarrow> bool" where
  "startswith s p = (take (length p) s = p)"

definition endswith :: "string \<Rightarrow> string \<Rightarrow> bool" where
  "endswith s p = (length p \<le> length s \<and> drop (length s - length p) s = p)"

text \<open>\<open>s.rfind(c)\<close>: the index of the last occurrence of \<open>c\<close>, \<open>-1\<close> when there is none.\<close>

fun last_index :: "char \<Rightarrow> string \<Rightarrow> nat option" where
  "last_index c [] = None"
| "last_index c (x # xs) =
     (case last_index c xs of
        Some i \<Rightarrow> Some (Suc i)
      | None \<Rightarrow> if x = c then Some 0 else None)"

definition rfind :: "char \<Rightarrow> string \<Rightarrow> int" where
  "rfind c s = (case last_index c s of None \<Rightarrow> - 1 | Some i \<Rightarrow> int i)"

text \<open>\<open>s.split(sep)\<close> for a one-character separator: always at least one piece.\<close>

fun split_py :: "char \<Rightarrow> string \<Rightarrow> string list" where
  "split_py sep [] = [[]]"
| "split_py sep (c # cs) =
     (if c = sep then [] # split_py sep cs
      else (case split_py sep cs of
              piece # pieces \<Rightarrow> (c # piece) # pieces
            | [] \<Rightarrow> [[c]]))"

text \<open>\<open>xs[-1]\<close>: the last item, \<open>IndexError\<close> on the empty list.\<close>

definition index_last :: "'a list \<Rightarrow> py_error + 'a" where
  "index_last xs =
     (if xs = [] then Inl (IndexError ''list index out of range'') else Inr (last xs))"

text \<open>\<open>s.replace(c, r)\<close> for a one-character \<open>c\<close>.\<close>

definition replace_char :: "char \<Rightarrow> string \<Rightarrow> string \<Rightarrow> string" where
  "replace_char c r s = concat (map (\<lambda>x. if x = c then r else [x]) s)"

text \<open>Decimal rendering of an integer inside an f-string.\<close>

definition digit_char :: "nat \<Rightarrow> char" where
  "digit_char d = ''0123456789'' ! d"

fun nat_digits :: "nat \<Rightarrow> string" where
  "nat_digits n =
     (if n < 10 then [digit_char n] else nat_digits (n div 10) @ [digit_char (n mod 10)])"

definition str_of_int :: "int \<Rightarrow> string" where
  "str_of_int i = (if i < 0 then CHR ''-'' # nat_digits (nat (- i)) else nat_digits (nat i))"

subsection \<open>scraper.py: constants and pure helpers\<close>

definition XKCD_BASE_URL :: string where
  "XKCD_BASE_URL = ''https://xkcd.com/''"

definition INVALID_FILENAME_CHARS :: "char list" where
  "INVALID_FILENAME_CHARS =
     [CHR ''/'', CHR 0x5C, CHR ''?'', CHR ''%'', CHR ''*'', CHR '':'', CHR ''|'',
      CHR 0x22, CHR ''<'', CHR ''>'', CHR ''.'']"

definition sanitize_filename :: "string \<Rightarrow> string" where
  "sanitize_filename filename =
     filter (\<lambda>char. char \<notin> set INVALID_FILENAME_CHARS) filename"

definition get_file_extension :: "string \<Rightarrow> py_error + string" where
  "get_file_extension url = index_last (split_py CHR ''.'' url)"

subsection \<open>Effects and the environment\<close>

text \<open>
  The observable effects of a run, in program order:
  \<^item> \<open>HttpGet url\<close>: a call of \<open>requests.get(url)\<close>;
  \<^item> \<open>Print line\<close>: a line printed to stdout;
  \<^item> \<open>WriteBinary path data\<close>, \<open>WriteText path text\<close>: a call of \<open>write\<close> with this payload
    on the file that \<open>open(path, 'wb')\<close>, respectively \<open>open(path, 'w', encoding='utf-8')\<close>,
    has opened. An \<open>open\<close> that fails leaves no event: nothing is written.
  The display script adds the calls it makes on the image and on the e-paper panel.
\<close>

datatype event =
    HttpGet string
  | Print string
  | WriteBinary string string
  | WriteText string string
  | ListDir string
  | ImageOpen string
  | InkyInit string
  | SetBorder
  | ImageResize int int
  | ImageCrop int int int int
  | Quantize
  | Rotate int
  | SetImage
  | DisplayShow

definition requests_of :: "event list \<Rightarrow> string list" where
  "requests_of tr = concat (map (\<lambda>e. case e of HttpGet u \<Rightarrow> [u] | _ \<Rightarrow> []) tr)"

definition writes_of :: "event list \<Rightarrow> string list" where
  "writes_of tr =
     concat (map (\<lambda>e. case e of WriteBinary p _ \<Rightarrow> [p] | WriteText p _ \<Rightarrow> [p] | _ \<Rightarrow> []) tr)"

definition text_writes_of :: "event list \<Rightarrow> string list" where
  "text_writes_of tr = concat (map (\<lambda>e. case e of WriteText p _ \<Rightarrow> [p] | _ \<Rightarrow> []) tr)"

text \<open>An HTTP response as \<open>requests\<close> returns it.\<close>

record response =
  status_code :: nat
  reason :: string
  resp_url :: string
  resp_text :: string
  resp_content :: string

text \<open>
  \<open>Response.raise_for_status()\<close> of the \<open>requests\<close> library: an \<open>HTTPError\<close> (a
  \<open>RequestException\<close>) for a status from 400 to 599, nothing otherwise. The result is the
  message of the exception raised, if any.
\<close>

definition raise_for_status :: "response \<Rightarrow> string option" where
  "raise_for_status r =
     (if 400 \<le> status_code r \<and> status_code r < 500 then
        Some (nat_digits (status_code r) @ '' Client Error: '' @ reason r @ '' for url: '' @ resp_url r)
      else if 500 \<le> status_code r \<and> status_code r < 600 then
        Some (nat_digits (status_code r) @ '' Server Error: '' @ reason r @ '' for url: '' @ resp_url r)
      else None)"

text \<open>
  A parsed page. \<open>soup.find(id=i)\<close> is the lookup \<open>soup i\<close>; a tag carries its attribute
  dictionary, the result of \<open>tag.find("img")\<close> and the result of \<open>tag.get_text()\<close>.
\<close>

datatype tag = Tag (tag_attrs: "string \<Rightarrow> string option") (find_img: "tag option") (get_text: string)

type_synonym soup = "string \<Rightarrow> tag option"

text \<open>
  The outcome of \<open>requests.get(url)\<close>: a \<open>RequestException\<close> with its message (the only
  class the callers catch), a response, or an exception of another class, which the
  callers' \<open>except requests.RequestException\<close> lets through (for instance the
  \<open>LocationParseError\<close> of \<open>urllib3\<close> for a host with an empty label).
\<close>

datatype http_outcome =
    RequestException string
  | Response response
  | OtherException py_error

text \<open>
  The outcome of \<open>open\<close> or of \<open>write\<close>: success, an \<open>IOError\<close> with its message (the only
  class \<open>save_image\<close> and \<open>save_transcript\<close> catch), or an exception of another class,
  which \<open>except IOError\<close> lets through (\<open>ValueError\<close> from \<open>open\<close> on a path with a NUL
  character, \<open>UnicodeEncodeError\<close> from writing a lone surrogate as UTF-8).
\<close>

datatype io_outcome =
    IoOk
  | IoError string
  | IoRaises py_error

text \<open>
  What the program's surroundings answer. The network and the file system may answer
  differently as the run proceeds, so those oracles see the events so far.
  \<^item> \<open>requests_get\<close>: \<open>requests.get(url)\<close>;
  \<^item> \<open>html_parser\<close>: \<open>BeautifulSoup(text, "html.parser")\<close>;
  \<^item> \<open>open_file\<close>: \<open>open(path, mode)\<close> for writing;
  \<^item> \<open>write_file\<close>: \<open>write(payload)\<close> on the file opened at the path, and leaving the
    \<open>with\<close> block;
  \<^item> \<open>project_root\<close>: \<open>dirname(dirname(abspath(__file__)))\<close>;
  \<^item> \<open>path_exists\<close>, \<open>listdir\<close>, \<open>isdir\<close>, \<open>glob_glob\<close>, \<open>relpath\<close>: the \<open>os\<close>,
    \<open>os.path\<close> and \<open>glob\<close> calls of the README updater.
\<close>

record world =
  requests_get :: "event list \<Rightarrow> string \<Rightarrow> http_outcome"
  html_parser :: "string \<Rightarrow> soup"
  open_file :: "event list \<Rightarrow> string \<Rightarrow> io_outcome"
  write_file :: "event list \<Rightarrow> string \<Rightarrow> string \<Rightarrow> io_outcome"
  project_root :: string
  path_exists :: "string \<Rightarrow> bool"
  listdir :: "string \<Rightarrow> py_error + string list"
  isdir :: "string \<Rightarrow> bool"
  glob_glob :: "string \<Rightarrow> string list"
  relpath :: "string \<Rightarrow> string \<Rightarrow> string"

subsection \<open>scraper.py: the pipeline steps\<close>

text \<open>
  A step returns its result (\<open>Inr\<close>), or an exception it does not catch leaves it
  (\<open>Inl\<close>); either way with the events up to that point.
\<close>

definition fetch_webpage ::
    "world \<Rightarrow> event list \<Rightarrow> string \<Rightarrow> (py_error + soup option) \<times> event list" where
  "fetch_webpage w tr url =
     (case requests_get w tr url of
        OtherException x \<Rightarrow> (Inl x, tr @ [HttpGet url])
      | RequestException e \<Rightarrow>
          (Inr None, tr @ [HttpGet url, Print (''Error fetching '' @ url @ '': '' @ e)])
      | Response response \<Rightarrow>
          (case raise_for_status response of
             Some e \<Rightarrow>
               (Inr None, tr @ [HttpGet url, Print (''Error fetching '' @ url @ '': '' @ e)])
           | None \<Rightarrow> (Inr (Some (html_parser w (resp_text response))), tr @ [HttpGet url])))"

record comic_data =
  image_url :: string
  title :: string
  transcript :: string

text \<open>The body of the \<open>try\<close> block of \<open>extract_comic_data\<close>, with the exception each lookup raises.\<close>

definition no_attribute :: "string \<Rightarrow> string" where
  "no_attribute a = quoted ''NoneType'' @ '' object has no attribute '' @ quoted a"

definition extract_fields :: "soup \<Rightarrow> py_error + comic_data" where
  "extract_fields soup =
     (case soup ''comic'' of
        None \<Rightarrow> Inl (AttributeError (no_attribute ''find''))
      | Some comic \<Rightarrow>
     (case find_img comic of
        None \<Rightarrow> Inl (TypeError (quoted ''NoneType'' @ '' object is not subscriptable''))
      | Some comic_img \<Rightarrow>
     (case tag_attrs comic_img ''src'' of
        None \<Rightarrow> Inl (KeyError ''src'')
      | Some url \<Rightarrow>
     (case soup ''ctitle'' of
        None \<Rightarrow> Inl (AttributeError (no_attribute ''get_text''))
      | Some ctitle \<Rightarrow>
     (case soup ''transcript'' of
        None \<Rightarrow> Inl (AttributeError (no_attribute ''get_text''))
      | Some tscript \<Rightarrow>
          Inr \<lparr>image_url = url, title = get_text ctitle, transcript = get_text tscript\<rparr>)))))"

definition extract_comic_data :: "event list \<Rightarrow> soup \<Rightarrow> comic_data option \<times> event list" where
  "extract_comic_data tr soup =
     (case extract_fields soup of
        Inl e \<Rightarrow> (None, tr @ [Print (''Error extracting comic data: '' @ str_of_error e)])
      | Inr d \<Rightarrow> (Some d, tr))"

definition download_image ::
    "world \<Rightarrow> event list \<Rightarrow> string \<Rightarrow> (py_error + string option) \<times> event list" where
  "download_image w tr image_url0 =
     (let image_url = (if startswith image_url0 ''//'' then ''https:'' @ image_url0 else image_url0)
      in case requests_get w tr image_url of
           OtherException x \<Rightarrow> (Inl x, tr @ [HttpGet image_url])
         | RequestException e \<Rightarrow>
             (Inr None, tr @ [HttpGet image_url,
                              Print (''Error downloading image from '' @ image_url @ '': '' @ e)])
         | Response response \<Rightarrow>
             (case raise_for_status response of
                Some e \<Rightarrow>
                  (Inr None, tr @ [HttpGet image_url,
                                   Print (''Error downloading image from '' @ image_url @ '': '' @ e)])
              | None \<Rightarrow> (Inr (Some (resp_content response)), tr @ [HttpGet image_url])))"

definition save_image ::
    "world \<Rightarrow> event list \<Rightarrow> string \<Rightarrow> string \<Rightarrow> (py_error + bool) \<times> event list" where
  "save_image w tr image_data filepath =
     (case open_file w tr filepath of
        IoRaises x \<Rightarrow> (Inl x, tr)
      | IoError e \<Rightarrow> (Inr False, tr @ [Print (''Error saving image to '' @ filepath @ '': '' @ e)])
      | IoOk \<Rightarrow>
          (case write_file w tr filepath image_data of
             IoRaises x \<Rightarrow> (Inl x, tr @ [WriteBinary filepath image_data])
           | IoError e \<Rightarrow>
               (Inr False, tr @ [WriteBinary filepath image_data,
                                 Print (''Error saving image to '' @ filepath @ '': '' @ e)])
           | IoOk \<Rightarrow> (Inr True, tr @ [WriteBinary filepath image_data])))"

definition save_transcript ::
    "world \<Rightarrow> event list \<Rightarrow> string \<Rightarrow> string \<Rightarrow> (py_error + bool) \<times> event list" where
  "save_transcript w tr transcript_text filepath =
     (case open_file w tr filepath of
        IoRaises x \<Rightarrow> (Inl x, tr)
      | IoError e \<Rightarrow>
          (Inr False, tr @ [Print (''Error saving transcript to '' @ filepath @ '': '' @ e)])
      | IoOk \<Rightarrow>
          (case write_file w tr filepath transcript_text of
             IoRaises x \<Rightarrow> (Inl x, tr @ [WriteText filepath transcript_text])
           | IoError e \<Rightarrow>
               (Inr False, tr @ [WriteText filepath transcript_text,
                                 Print (''Error saving transcript to '' @ filepath @ '': '' @ e)])
           | IoOk \<Rightarrow> (Inr True, tr @ [WriteText filepath transcript_text])))"

subsection \<open>scraper.py: the two orchestrators\<close>

text \<open>
  An exception that leaves a step leaves the orchestrator too: neither function has a
  \<open>try\<close> of its own.
\<close>

definition get_comic :: "world \<Rightarrow> event list \<Rightarrow> int \<Rightarrow> (py_error + bool) \<times> event list" where
  "get_comic w tr comic_index =
     (let url = XKCD_BASE_URL @ str_of_int comic_index in
      case fetch_webpage w tr url of
        (Inl x, tr1) \<Rightarrow> (Inl x, tr1)
      | (Inr None, tr1) \<Rightarrow> (Inr False, tr1)
      | (Inr (Some soup), tr1) \<Rightarrow>
     (case extract_comic_data tr1 soup of
        (None, tr2) \<Rightarrow> (Inr False, tr2)
      | (Some comic_data, tr2) \<Rightarrow>
     (let sanitized_title = sanitize_filename (title comic_data) in
      case download_image w tr2 (image_url comic_data) of
        (Inl x, tr3) \<Rightarrow> (Inl x, tr3)
      | (Inr None, tr3) \<Rightarrow> (Inr False, tr3)
      | (Inr (Some image_data), tr3) \<Rightarrow>
     (case get_file_extension (image_url comic_data) of
        Inl x \<Rightarrow> (Inl x, tr3)
      | Inr file_extension \<Rightarrow>
     (let image_path = sanitized_title @ ''.'' @ file_extension in
      case save_image w tr3 image_data image_path of
        (Inl x, tr4) \<Rightarrow> (Inl x, tr4)
      | (Inr saved, tr4) \<Rightarrow>
      if \<not> saved then (Inr False, tr4)
      else
     (let transcript_path = sanitized_title @ ''_transcript.txt'' in
      case save_transcript w tr4 (transcript comic_data) transcript_path of
        (Inl x, tr5) \<Rightarrow> (Inl x, tr5)
      | (Inr saved_t, tr5) \<Rightarrow>
      if \<not> saved_t then (Inr False, tr5)
      else (Inr True,
            tr5 @ [Print (''Successfully downloaded comic '' @ str_of_int comic_index @ '': ''
                          @ title comic_data)])))))))"

definition get_current_comic :: "world \<Rightarrow> event list \<Rightarrow> (py_error + bool) \<times> event list" where
  "get_current_comic w tr =
     (case fetch_webpage w tr XKCD_BASE_URL of
        (Inl x, tr1) \<Rightarrow> (Inl x, tr1)
      | (Inr None, tr1) \<Rightarrow> (Inr False, tr1)
      | (Inr (Some soup), tr1) \<Rightarrow>
     (case extract_comic_data tr1 soup of
        (None, tr2) \<Rightarrow> (Inr False, tr2)
      | (Some comic_data, tr2) \<Rightarrow>
     (let sanitized_title = sanitize_filename (title comic_data) in
      case download_image w tr2 (image_url comic_data) of
        (Inl x, tr3) \<Rightarrow> (Inl x, tr3)
      | (Inr None, tr3) \<Rightarrow> (Inr False, tr3)
      | (Inr (Some image_data), tr3) \<Rightarrow>
     (case get_file_extension (image_url comic_data) of
        Inl x \<Rightarrow> (Inl x, tr3)
      | Inr file_extension \<Rightarrow>
     (let image_path = sanitized_title @ ''.'' @ file_extension in
      case save_image w tr3 image_data image_path of
        (Inl x, tr4) \<Rightarrow> (Inl x, tr4)
      | (Inr saved, tr4) \<Rightarrow>
      if \<not> saved then (Inr False, tr4)
      else (Inr True,
            tr4 @ [Print (''Successfully downloaded current comic: '' @ title comic_data)]))))))"

subsection \<open>update_readme.py\<close>

text \<open>\<open>os.path.join(a, b)\<close> on POSIX.\<close>

definition os_path_join :: "string \<Rightarrow> string \<Rightarrow> string" where
  "os_path_join a b =
     (if startswith b ''/'' then b
      else if a = [] \<or> endswith a ''/'' then a @ b
      else a @ ''/'' @ b)"

text \<open>
  \<open>Path(p).name\<close> on POSIX: the last path component, after the empty and \<open>.\<close> components
  are dropped; empty when there is none.
\<close>

definition path_name :: "string \<Rightarrow> string" where
  "path_name p =
     (let parts = filter (\<lambda>x. x \<noteq> [] \<and> x \<noteq> ''.'') (split_py CHR ''/'' p)
      in if parts = [] then [] else last parts)"

text \<open>\<open>Path(p).stem\<close>: the name up to its last dot, when that dot is neither first nor last.\<close>

definition path_stem :: "string \<Rightarrow> string" where
  "path_stem p =
     (let name = path_name p; i = rfind CHR ''.'' name
      in if 0 < i \<and> i < int (length name) - 1 then take (nat i) name else name)"

definition NL :: string where
  "NL = [CHR 0x0A]"

definition readme_template :: "string \<Rightarrow> string \<Rightarrow> string \<Rightarrow> string" where
  "readme_template date comic_title image_path =
     ''# xkcd Daily'' @ NL @ NL @
     ''#### '' @ date @ NL @ NL @
     ''## '' @ comic_title @ NL @ NL @
     ''!['' @ comic_title @ '']('' @ image_path @ '')'' @ NL @ NL @
     ''---'' @ NL @ NL @
     ''*This README is automatically updated with the latest xkcd comic.*'' @ NL"

definition get_most_recent_comic ::
    "world \<Rightarrow> event list \<Rightarrow> (py_error + (string \<times> string \<times> string) option) \<times> event list" where
  "get_most_recent_comic w tr =
     (let data_dir = os_path_join (project_root w) ''data'' in
      if \<not> path_exists w data_dir then
        (Inr None, tr @ [Print (''Data directory not found: '' @ data_dir)])
      else
     (case listdir w data_dir of
        Inl e \<Rightarrow> (Inl e, tr)
      | Inr names \<Rightarrow>
     (let date_dirs = rev (sort (filter (\<lambda>d. isdir w (os_path_join data_dir d)) names)) in
      if date_dirs = [] then
        (Inr None, tr @ [Print ''No date directories found in data folder''])
      else
     (let most_recent_date = hd date_dirs;
          most_recent_dir = os_path_join data_dir most_recent_date;
          png_files = glob_glob w (os_path_join most_recent_dir ''*.png'') in
      if png_files = [] then
        (Inr None, tr @ [Print (''No PNG files found in '' @ most_recent_dir)])
      else
     (let image_path = hd png_files;
          comic_title = path_stem image_path;
          rel_image_path = relpath w image_path (project_root w);
          rel_image_path = replace_char CHR '' '' ''%20'' rel_image_path
      in (Inr (Some (most_recent_date, comic_title, rel_image_path)), tr))))))"

definition update_readme :: "world \<Rightarrow> event list \<Rightarrow> (py_error + unit) \<times> event list" where
  "update_readme w tr =
     (let readme_path = os_path_join (project_root w) ''README.md'' in
      case get_most_recent_comic w tr of
        (Inl e, tr1) \<Rightarrow> (Inl e, tr1)
      | (Inr None, tr1) \<Rightarrow> (Inr (), tr1 @ [Print ''No comic found to update README''])
      | (Inr (Some (date, comic_title, image_path)), tr1) \<Rightarrow>
     (let readme_content = readme_template date comic_title image_path in
      case open_file w tr1 readme_path of
        IoRaises x \<Rightarrow> (Inl x, tr1)
      | IoError e \<Rightarrow> (Inl (OSError e), tr1)
      | IoOk \<Rightarrow>
          (case write_file w tr1 readme_path readme_content of
             IoRaises x \<Rightarrow> (Inl x, tr1 @ [WriteText readme_path readme_content])
           | IoError e \<Rightarrow> (Inl (OSError e), tr1 @ [WriteText readme_path readme_content])
           | IoOk \<Rightarrow>
               (Inr (), tr1 @ [WriteText readme_path readme_content,
                               Print (''README updated successfully with comic: '' @ comic_title)]))))"

subsection \<open>what_xkcd.py\<close>

text \<open>
  The script is run top to bottom. Its module namespace starts with the names Python
  gives every script, grows by what each \<open>import\<close>, assignment and \<open>def\<close> binds, and a name
  is looked up there first and among the built-ins second; a name found in neither raises
  \<open>NameError\<close>.
\<close>

definition initial_globals :: "string list" where
  "initial_globals =
     [''__name__'', ''__doc__'', ''__package__'', ''__loader__'', ''__spec__'',
      ''__annotations__'', ''__builtins__'', ''__file__'', ''__cached__'']"

definition builtin_names :: "string list" where
  "builtin_names =
     [''ArithmeticError'', ''AssertionError'', ''AttributeError'', ''BaseException'',
      ''BaseExceptionGroup'', ''BlockingIOError'', ''BrokenPipeError'', ''BufferError'',
      ''BytesWarning'', ''ChildProcessError'', ''ConnectionAbortedError'',
      ''ConnectionError'', ''ConnectionRefusedError'', ''ConnectionResetError'',
      ''DeprecationWarning'', ''EOFError'', ''Ellipsis'', ''EncodingWarning'',
      ''EnvironmentError'', ''Exception'', ''ExceptionGroup'', ''False'',
      ''FileExistsError'', ''FileNotFoundError'', ''FloatingPointError'', ''FutureWarning'',
      ''GeneratorExit'', ''IOError'', ''ImportError'', ''ImportWarning'',
      ''IndentationError'', ''IndexError'', ''InterruptedError'', ''IsADirectoryError'',
      ''KeyError'', ''KeyboardInterrupt'', ''LookupError'', ''MemoryError'',
      ''ModuleNotFoundError'', ''NameError'', ''None'', ''NotADirectoryError'',
      ''NotImplemented'', ''NotImplementedError'', ''OSError'', ''OverflowError'',
      ''PendingDeprecationWarning'', ''PermissionError'', ''ProcessLookupError'',
      ''RecursionError'', ''ReferenceError'', ''ResourceWarning'', ''RuntimeError'',
      ''RuntimeWarning'', ''StopAsyncIteration'', ''StopIteration'', ''SyntaxError'',
      ''SyntaxWarning'', ''SystemError'', ''SystemExit'', ''TabError'', ''TimeoutError'',
      ''True'', ''TypeError'', ''UnboundLocalError'', ''UnicodeDecodeError'',
      ''UnicodeEncodeError'', ''UnicodeError'', ''UnicodeTranslateError'',
      ''UnicodeWarning'', ''UserWarning'', ''ValueError'', ''Warning'',
      ''ZeroDivisionError'', ''__build_class__'', ''__debug__'', ''__doc__'',
      ''__import__'', ''__loader__'', ''__name__'', ''__package__'', ''__spec__'', ''abs'',
      ''aiter'', ''all'', ''anext'', ''any'', ''ascii'', ''bin'', ''bool'', ''breakpoint'',
      ''bytearray'', ''bytes'', ''callable'', ''chr'', ''classmethod'', ''compile'',
      ''complex'', ''copyright'', ''credits'', ''delattr'', ''dict'', ''dir'', ''divmod'',
      ''enumerate'', ''eval'', ''exec'', ''exit'', ''filter'', ''float'', ''format'',
      ''frozenset'', ''getattr'', ''globals'', ''hasattr'', ''hash'', ''help'', ''hex'',
      ''id'', ''input'', ''int'', ''isinstance'', ''issubclass'', ''iter'', ''len'',
      ''license'', ''list'', ''locals'', ''map'', ''max'', ''memoryview'', ''min'',
      ''next'', ''object'', ''oct'', ''open'', ''ord'', ''pow'', ''print'', ''property'',
      ''quit'', ''range'', ''repr'', ''reversed'', ''round'', ''set'', ''setattr'',
      ''slice'', ''sorted'', ''staticmethod'', ''str'', ''sum'', ''super'', ''tuple'',
      ''type'', ''vars'', ''zip'']"

definition load_name :: "string list \<Rightarrow> string \<Rightarrow> py_error + unit" where
  "load_name globals name =
     (if name \<in> set globals \<or> name \<in> set builtin_names then Inr ()
      else Inl (NameError (''name '' @ quoted name @ '' is not defined'')))"

text \<open>The \<open>import\<close> lines 1 to 6 of the script: the module, and the names the line binds.\<close>

definition script_imports :: "(string \<times> string list) list" where
  "script_imports =
     [(''font_source_sans_pro'', [''SourceSansProSemibold'']),
      (''PIL'', [''Image'', ''ImageFont'', ''ImageDraw'']),
      (''inky'', [''InkyWHAT'']),
      (''scraper'', [''scraper'']),
      (''random'', [''random'']),
      (''os'', [''os''])]"

fun run_imports ::
    "(string \<Rightarrow> bool) \<Rightarrow> (string \<times> string list) list \<Rightarrow> string list \<Rightarrow> py_error + string list" where
  "run_imports importable [] globals = Inr globals"
| "run_imports importable ((m, names) # rest) globals =
     (if importable m then run_imports importable rest (globals @ names)
      else Inl (ModuleNotFoundError (''No module named '' @ quoted m)))"

text \<open>
  The surroundings of the display script:
  \<^item> \<open>importable\<close>: whether \<open>import m\<close> succeeds;
  \<^item> \<open>script_root\<close>: the value line 10 binds to \<open>root\<close>;
  \<^item> \<open>comics_listing\<close>: \<open>os.listdir('comics')\<close>;
  \<^item> \<open>random_draw\<close>: the random source behind \<open>random.randint\<close>;
  \<^item> \<open>image_open\<close>: \<open>Image.open(path)\<close>, giving the size of the image;
  \<^item> \<open>float_scale a b c\<close>: \<open>int((float(a) / b) * c)\<close>, floating-point arithmetic not modelled.
\<close>

record display_env =
  importable :: "string \<Rightarrow> bool"
  script_root :: string
  comics_listing :: "py_error + string list"
  random_draw :: nat
  image_open :: "string \<Rightarrow> py_error + (int \<times> int)"
  float_scale :: "int \<Rightarrow> int \<Rightarrow> int \<Rightarrow> int"

text \<open>\<open>random.randint(a, b)\<close>: a value from \<open>a\<close> to \<open>b\<close>, \<open>ValueError\<close> on an empty range.\<close>

definition randint :: "display_env \<Rightarrow> int \<Rightarrow> int \<Rightarrow> py_error + int" where
  "randint d a b =
     (if b < a then Inl (ValueError ''empty range for randrange()'')
      else Inr (a + int (random_draw d) mod (b - a + 1)))"

text \<open>\<open>int(a / 2)\<close> for an integer \<open>a\<close>: true division, then truncation towards zero.\<close>

definition int_half :: "int \<Rightarrow> int" where
  "int_half a = (if 0 \<le> a then a div 2 else - ((- a) div 2))"

definition choose_random_comic ::
    "display_env \<Rightarrow> event list \<Rightarrow> (py_error + int \<times> int) \<times> event list" where
  "choose_random_comic d tr =
     (case comics_listing d of
        Inl e \<Rightarrow> (Inl e, tr @ [ListDir ''comics''])
      | Inr comics \<Rightarrow>
     (case randint d 0 (int (length comics) - 1) of
        Inl e \<Rightarrow> (Inl e, tr @ [ListDir ''comics''])
      | Inr i \<Rightarrow>
     (let comic = comics ! nat i;
          path = os_path_join (os_path_join (script_root d) ''comics'') comic;
          tr1 = tr @ [ListDir ''comics'', Print (''chose comic: '' @ comic), ImageOpen path]
      in case image_open d path of
           Inl e \<Rightarrow> (Inl e, tr1)
         | Inr dims \<Rightarrow> (Inr dims, tr1))))"

text \<open>Lines 26 to 65: fit the image to the 400 by 300 panel and show it.\<close>

definition render_comic :: "display_env \<Rightarrow> event list \<Rightarrow> int \<times> int \<Rightarrow> event list" where
  "render_comic d tr dims =
     (let (w, h) = dims;
          ptype = (if w > h then ''landscape'' else ''portrait'')
      in if ptype = ''landscape'' then
           (let w_new = 400;
                h_new = float_scale d h w w_new;
                h_cropped = 300;
                x0 = 0;
                x1 = w_new;
                y0 = int_half (h_new - h_cropped);
                y1 = y0 + h_cropped
            in tr @ [InkyInit ''black'', SetBorder, ImageResize w_new h_new,
                     ImageCrop x0 y0 x1 y1, Quantize, Rotate 180, SetImage, DisplayShow])
         else
           (let h_new = 300;
                w_new = float_scale d w h h_new;
                w_cropped = 400;
                x0 = int_half (w_new - w_cropped);
                x1 = x0 + w_cropped;
                y0 = 0;
                y1 = h_new
            in tr @ [InkyInit ''black'', SetBorder, ImageResize w_new h_new,
                     ImageCrop x0 y0 x1 y1, Quantize, Rotate 180, SetImage, DisplayShow]))"

text \<open>
  The \<open>__main__\<close> block. Line 23 first loads the name \<open>xkdc_scraper\<close>; were it bound, the
  call would go on to the scraper, the random choice and the panel.
\<close>

definition main_block ::
    "world \<Rightarrow> display_env \<Rightarrow> string list \<Rightarrow> event list \<Rightarrow> (py_error + unit) \<times> event list" where
  "main_block w d globals tr =
     (case load_name globals ''xkdc_scraper'' of
        Inl e \<Rightarrow> (Inl e, tr)
      | Inr _ \<Rightarrow>
     (case get_current_comic w tr of
        (Inl e, tr1) \<Rightarrow> (Inl e, tr1)
      | (Inr _, tr1) \<Rightarrow>
     (case choose_random_comic d tr1 of
        (Inl e, tr2) \<Rightarrow> (Inl e, tr2)
      | (Inr dims, tr2) \<Rightarrow> (Inr (), render_comic d tr2 dims))))"

text \<open>The whole script, run as \<open>__main__\<close>: imports, \<open>root\<close>, the \<open>def\<close>, then the main block.\<close>

definition what_xkcd ::
    "world \<Rightarrow> display_env \<Rightarrow> event list \<Rightarrow> (py_error + unit) \<times> event list" where
  "what_xkcd w d tr =
     (case run_imports (importable d) script_imports initial_globals of
        Inl e \<Rightarrow> (Inl e, tr)
      | Inr globals \<Rightarrow> main_block w d (globals @ [''root'', ''choose_random_comic'']) tr)"

text \<open>The events that choose, transform or show a comic.\<close>

definition display_events_of :: "event list \<Rightarrow> event list" where
  "display_events_of tr =
     filter (\<lambda>e. case e of HttpGet _ \<Rightarrow> False | Print _ \<Rightarrow> False | WriteBinary _ _ \<Rightarrow> False
                    | WriteText _ _ \<Rightarrow> False | _ \<Rightarrow> True) tr"

subsection \<open>Sample surroundings\<close>

text \<open>
  A page with the three regions the extractor reads, a server that answers the page and
  the image with given status codes, and a checkout at \<open>/repo\<close> holding three dated
  directories. They instantiate the theorems below at concrete runs.
\<close>

definition sample_img :: tag where
  "sample_img = Tag [''src'' \<mapsto> ''//imgs.xkcd.com/comics/test_comic.png''] None []"

definition sample_soup :: soup where
  "sample_soup =
     [''comic'' \<mapsto> Tag Map.empty (Some sample_img) [],
      ''ctitle'' \<mapsto> Tag Map.empty None ''Test Comic'',
      ''transcript'' \<mapsto> Tag Map.empty None ''[[A test]]'']"

definition soup_without_transcript :: soup where
  "soup_without_transcript = sample_soup(''transcript'' := None)"

definition sample_net :: "nat \<Rightarrow> nat \<Rightarrow> event list \<Rightarrow> string \<Rightarrow> http_outcome" where
  "sample_net page_status image_status tr url =
     (if url = ''https://imgs.xkcd.com/comics/test_comic.png'' then
        Response \<lparr>status_code = image_status, reason = ''Image'', resp_url = url,
             resp_text = [], resp_content = ''PNGDATA''\<rparr>
      else
        Response \<lparr>status_code = page_status, reason = ''Page'', resp_url = url,
             resp_text = ''<html>'', resp_content = ''<html>''\<rparr>)"

definition sample_world ::
    "(event list \<Rightarrow> string \<Rightarrow> http_outcome) \<Rightarrow> soup \<Rightarrow> string list \<Rightarrow> world" where
  "sample_world net soup pngs =
     \<lparr>requests_get = net,
      html_parser = (\<lambda>_. soup),
      open_file = (\<lambda>_ _. IoOk),
      write_file = (\<lambda>_ _ _. IoOk),
      project_root = ''/repo'',
      path_exists = (\<lambda>p. p = ''/repo/data''),
      listdir = (\<lambda>p. Inr [''2024-01-05'', ''2024-01-20'', ''2023-12-31'']),
      isdir = (\<lambda>_. True),
      glob_glob = (\<lambda>pattern. if pattern = ''/repo/data/2024-01-20/*.png'' then pngs else []),
      relpath = (\<lambda>p start. drop (length start + 1) p)\<rparr>"

definition sample_display :: display_env where
  "sample_display =
     \<lparr>importable = (\<lambda>_. True),
      script_root = ''/home/pi'',
      comics_listing = Inr [''Test Comic.png''],
      random_draw = 0,
      image_open = (\<lambda>_. Inr (740, 320)),
      float_scale = (\<lambda>a b c. (a * c) div b)\<rparr>"

definition unreachable_net :: "event list \<Rightarrow> string \<Rightarrow> http_outcome" where
  "unreachable_net tr url = RequestException ''Connection refused''"

definition empty_label_net :: "event list \<Rightarrow> string \<Rightarrow> http_outcome" where
  "empty_label_net tr url =
     OtherException (LocationParseError ''label empty or too long'')"

definition bad_image_host_net :: "event list \<Rightarrow> string \<Rightarrow> http_outcome" where
  "bad_image_host_net tr url =
     (if url = ''https://imgs.xkcd.com/comics/test_comic.png''
      then OtherException (LocationParseError ''label empty or too long'')
      else sample_net 200 200 tr url)"

definition read_only_disk :: "world \<Rightarrow> world" where
  "read_only_disk w = w\<lparr>open_file := (\<lambda>_ _. IoError ''[Errno 13] Permission denied'')\<rparr>"

definition transcript_disk_full :: "world \<Rightarrow> world" where
  "transcript_disk_full w =
     w\<lparr>write_file := (\<lambda>_ p _. if endswith p ''_transcript.txt''
                               then IoError ''[Errno 28] No space left on device'' else IoOk)\<rparr>"

definition nul_in_path :: "world \<Rightarrow> world" where
  "nul_in_path w = w\<lparr>open_file := (\<lambda>_ _. IoRaises (ValueError ''embedded null byte''))\<rparr>"

definition surrogate_in_transcript :: "world \<Rightarrow> world" where
  "surrogate_in_transcript w =
     w\<lparr>write_file := (\<lambda>_ p _. if endswith p ''_transcript.txt''
                               then IoRaises (UnicodeEncodeError ''surrogates not allowed'')
                               else IoOk)\<rparr>"

text \<open>The module namespace when the \<open>__main__\<close> block starts, every import having succeeded.\<close>

definition script_globals :: "string list" where
  "script_globals =
     initial_globals @ concat (map snd script_imports) @ [''root'', ''choose_random_comic'']"

section \<open>Verified properties\<close>

subsection \<open>Facts about the string helpers\<close>

lemma split_py_nonempty: "split_py sep s \<noteq> []"
  by (induction s) (auto split: list.splits)

lemma split_py_no_sep: "sep \<notin> set s \<Longrightarrow> split_py sep s = [s]"
  by (induction s) auto

lemma split_py_append: "split_py sep (p @ sep # r) = split_py sep p @ split_py sep r"
  by (induction p) (auto simp: split_py_nonempty split: list.splits)

lemma get_file_extension_no_dot:
  "CHR ''.'' \<notin> set url \<Longrightarrow> get_file_extension url = Inr url"
  by (simp add: get_file_extension_def index_last_def split_py_no_sep)

lemma get_file_extension_after_dot:
  "CHR ''.'' \<notin> set r \<Longrightarrow> get_file_extension (p @ CHR ''.'' # r) = Inr r"
  by (simp add: get_file_extension_def index_last_def split_py_append split_py_no_sep)

lemma get_file_extension_total: "\<exists>ext. get_file_extension url = Inr ext"
  by (simp add: get_file_extension_def index_last_def split_py_nonempty)

lemma denylist_set:
  "set INVALID_FILENAME_CHARS =
     {CHR ''/'', CHR 0x5C, CHR ''?'', CHR ''%'', CHR ''*'', CHR '':'', CHR ''|'',
      CHR 0x22, CHR ''<'', CHR ''>'', CHR ''.''}"
  by (simp add: INVALID_FILENAME_CHARS_def)

subsection \<open>sanitize_filename\<close>

text \<open>
  C2. For every input string the output of \<open>sanitize_filename\<close> contains none of the
  characters \<open>/ \ ? % * : | " < > .\<close>; an input that contains none of them is returned
  as it is; the output is a subsequence of the input (the order of what remains is kept),
  and every other character occurs in the output as often as in the input.
\<close>

theorem sanitize_filename_strips_denylist:
  "set (sanitize_filename s) \<inter>
     {CHR ''/'', CHR 0x5C, CHR ''?'', CHR ''%'', CHR ''*'', CHR '':'', CHR ''|'',
      CHR 0x22, CHR ''<'', CHR ''>'', CHR ''.''} = {}
   \<and> (set s \<inter> {CHR ''/'', CHR 0x5C, CHR ''?'', CHR ''%'', CHR ''*'', CHR '':'', CHR ''|'',
      CHR 0x22, CHR ''<'', CHR ''>'', CHR ''.''} = {} \<longrightarrow> sanitize_filename s = s)
   \<and> subseq (sanitize_filename s) s
   \<and> (\<forall>c. c \<notin> {CHR ''/'', CHR 0x5C, CHR ''?'', CHR ''%'', CHR ''*'', CHR '':'', CHR ''|'',
      CHR 0x22, CHR ''<'', CHR ''>'', CHR ''.''} \<longrightarrow>
        count_list (sanitize_filename s) c = count_list s c)"
proof -
  let ?D = "{CHR ''/'', CHR 0x5C, CHR ''?'', CHR ''%'', CHR ''*'', CHR '':'', CHR ''|'',
      CHR 0x22, CHR ''<'', CHR ''>'', CHR ''.''}"
  have d: "set INVALID_FILENAME_CHARS = ?D" by (rule denylist_set)
  have san: "sanitize_filename s = filter (\<lambda>c. c \<notin> ?D) s"
    unfolding sanitize_filename_def d ..
  have p1: "set (sanitize_filename s) \<inter> ?D = {}"
    unfolding san by (rule equals0I) (simp only: Int_iff set_filter mem_Collect_eq, blast)
  have p2: "set s \<inter> ?D = {} \<longrightarrow> sanitize_filename s = s"
    unfolding san by (intro impI filter_True) blast
  have p3: "subseq (sanitize_filename s) s"
    unfolding san by (rule subseq_filter_left)
  have p4: "\<forall>c. c \<notin> ?D \<longrightarrow> count_list (sanitize_filename s) c = count_list s c"
    unfolding san by (induction s) (simp_all del: insert_iff, blast?)
  from p1 p2 p3 p4 show ?thesis by (intro conjI)
qed

theorem sanitize_filename_strips_denylist_witness:
  "set ''Test Comic'' \<inter>
     {CHR ''/'', CHR 0x5C, CHR ''?'', CHR ''%'', CHR ''*'', CHR '':'', CHR ''|'',
      CHR 0x22, CHR ''<'', CHR ''>'', CHR ''.''} = {}
   \<and> sanitize_filename ''Test Comic'' = ''Test Comic''
   \<and> sanitize_filename ''1/10,000: Why?'' = ''110,000 Why''
   \<and> count_list (sanitize_filename ''1/10,000: Why?'') CHR ''0'' = 4"
  using sanitize_filename_strips_denylist [of "''Test Comic''"]
    sanitize_filename_strips_denylist [of "''1/10,000: Why?''"]
  by (simp add: sanitize_filename_def INVALID_FILENAME_CHARS_def)

subsection \<open>get_file_extension\<close>

text \<open>
  C4. For every URL \<open>get_file_extension\<close> returns (the index \<open>[-1]\<close> never fails) and its
  result is a function of the URL string alone: the text after the final \<open>.\<close>, and the
  whole URL when the URL has no \<open>.\<close>.
\<close>

theorem get_file_extension_text_after_last_dot:
  "(\<exists>ext. get_file_extension url = Inr ext)
   \<and> (CHR ''.'' \<notin> set url \<longrightarrow> get_file_extension url = Inr url)
   \<and> (\<forall>p r. url = p @ CHR ''.'' # r \<and> CHR ''.'' \<notin> set r \<longrightarrow> get_file_extension url = Inr r)"
  using get_file_extension_total get_file_extension_no_dot get_file_extension_after_dot
  by blast

theorem get_file_extension_text_after_last_dot_witness:
  "CHR ''.'' \<notin> set ''https://imgs/comics/test_comic''
   \<and> get_file_extension ''https://imgs/comics/test_comic'' = Inr ''https://imgs/comics/test_comic''
   \<and> ''//imgs.xkcd.com/comics/test_comic.png'' = ''//imgs.xkcd.com/comics/test_comic'' @ CHR ''.'' # ''png''
   \<and> CHR ''.'' \<notin> set ''png''
   \<and> get_file_extension ''//imgs.xkcd.com/comics/test_comic.png'' = Inr ''png''"
proof -
  have a: "CHR ''.'' \<notin> set ''https://imgs/comics/test_comic''" by simp
  have b: "''//imgs.xkcd.com/comics/test_comic.png'' = ''//imgs.xkcd.com/comics/test_comic'' @ CHR ''.'' # ''png''"
    by simp
  have c: "CHR ''.'' \<notin> set ''png''" by simp
  have r1: "get_file_extension ''https://imgs/comics/test_comic'' = Inr ''https://imgs/comics/test_comic''"
    using get_file_extension_text_after_last_dot [of "''https://imgs/comics/test_comic''"] a
    by (elim conjE) (erule mp)
  have r2: "get_file_extension ''//imgs.xkcd.com/comics/test_comic.png'' = Inr ''png''"
    using get_file_extension_text_after_last_dot [of "''//imgs.xkcd.com/comics/test_comic.png''"] b c
    by (elim conjE allE [of _ "''//imgs.xkcd.com/comics/test_comic''"] allE [of _ "''png''"])
       (erule mp, intro conjI)
  from a r1 b c r2 show ?thesis by (intro conjI)
qed

subsection \<open>download_image\<close>

text \<open>
  C5. For an image URL that begins with \<open>//\<close>, \<open>download_image\<close> requests \<open>https:\<close> followed
  by the URL, which begins with \<open>https://\<close>, and behaves as it does on that absolute URL;
  any other URL is requested as it is. In both cases the one request is the only request.
\<close>

theorem download_image_normalizes_url:
  "(startswith u ''//'' \<longrightarrow>
      startswith (''https:'' @ u) ''https://''
      \<and> requests_of (snd (download_image w tr u)) = requests_of tr @ [''https:'' @ u]
      \<and> download_image w tr u = download_image w tr (''https:'' @ u))
   \<and> (\<not> startswith u ''//'' \<longrightarrow>
      requests_of (snd (download_image w tr u)) = requests_of tr @ [u])"
  by (auto simp: download_image_def startswith_def requests_of_def Let_def
           split: http_outcome.splits option.splits)

theorem download_image_normalizes_url_witness:
  "startswith ''//imgs.xkcd.com/comics/test_comic.png'' ''//''
   \<and> requests_of (snd (download_image (sample_world (sample_net 200 200) sample_soup []) []
        ''//imgs.xkcd.com/comics/test_comic.png'')) = [''https://imgs.xkcd.com/comics/test_comic.png'']
   \<and> \<not> startswith ''https://imgs.xkcd.com/comics/test_comic.png'' ''//''
   \<and> requests_of (snd (download_image (sample_world (sample_net 200 200) sample_soup []) []
        ''https://imgs.xkcd.com/comics/test_comic.png'')) = [''https://imgs.xkcd.com/comics/test_comic.png'']"
  using download_image_normalizes_url [of "''//imgs.xkcd.com/comics/test_comic.png''"
      "sample_world (sample_net 200 200) sample_soup []" "[]"]
    download_image_normalizes_url [of "''https://imgs.xkcd.com/comics/test_comic.png''"
      "sample_world (sample_net 200 200) sample_soup []" "[]"]
  by (simp add: startswith_def requests_of_def)

subsection \<open>fetch_webpage\<close>







subsection \<open>The title, the file name and the stem\<close>

lemma last_index_absent: "c \<notin> set s \<Longrightarrow> last_index c s = None"
  by (induction s) auto

lemma last_index_last_occurrence:
  "c \<notin> set b \<Longrightarrow> last_index c (a @ c # b) = Some (length a)"
  by (induction a) (auto simp: last_index_absent)

lemma rfind_last_occurrence: "c \<notin> set b \<Longrightarrow> rfind c (a @ c # b) = int (length a)"
  by (simp add: rfind_def last_index_last_occurrence)

lemma path_name_plain:
  "CHR ''/'' \<notin> set f \<Longrightarrow> f \<noteq> [] \<Longrightarrow> f \<noteq> ''.'' \<Longrightarrow> path_name f = f"
  by (simp add: path_name_def split_py_no_sep)

lemma path_name_in_dir:
  "CHR ''/'' \<notin> set f \<Longrightarrow> f \<noteq> [] \<Longrightarrow> f \<noteq> ''.'' \<Longrightarrow> path_name (d @ CHR ''/'' # f) = f"
  by (simp add: path_name_def split_py_append split_py_no_sep)

lemma endswith_slash: "endswith a ''/'' \<Longrightarrow> \<exists>d. a = d @ ''/''"
  unfolding endswith_def
  by (metis append_take_drop_id)

lemma path_name_join:
  assumes "CHR ''/'' \<notin> set f" "f \<noteq> []" "f \<noteq> ''.''"
  shows "path_name (os_path_join dir f) = f"
proof -
  from assms have ns: "\<not> startswith f ''/''"
    by (cases f) (auto simp: startswith_def)
  show ?thesis
  proof (cases "dir = []")
    case True
    with ns assms show ?thesis by (simp add: os_path_join_def path_name_plain)
  next
    case False
    show ?thesis
    proof (cases "endswith dir ''/''")
      case True
      then obtain d where "dir = d @ ''/''" using endswith_slash by blast
      with ns True False assms show ?thesis
        using path_name_in_dir [of f d] by (simp add: os_path_join_def)
    next
      case e: False
      with ns False assms show ?thesis
        using path_name_in_dir [of f dir] by (simp add: os_path_join_def)
    qed
  qed
qed

lemma stem_of_name:
  assumes "CHR ''.'' \<notin> set s" "CHR ''.'' \<notin> set e" "s \<noteq> []" "e \<noteq> []"
    and "path_name p = s @ ''.'' @ e"
  shows "path_stem p = s"
  using assms by (simp add: path_stem_def Let_def rfind_last_occurrence)

lemma sanitize_no_dot: "CHR ''.'' \<notin> set (sanitize_filename t)"
  by (simp add: sanitize_filename_def INVALID_FILENAME_CHARS_def)

lemma sanitize_no_slash: "CHR ''/'' \<notin> set (sanitize_filename t)"
  by (simp add: sanitize_filename_def INVALID_FILENAME_CHARS_def)

lemma get_file_extension_no_dot_in_result:
  assumes "get_file_extension url = Inr ext"
  shows "CHR ''.'' \<notin> set ext"
proof (cases "CHR ''.'' \<in> set url")
  case True
  then obtain p r where "url = p @ CHR ''.'' # r" "CHR ''.'' \<notin> set r"
    using split_list_last by fastforce
  with assms show ?thesis using get_file_extension_after_dot [of r p] by simp
next
  case False
  with assms show ?thesis using get_file_extension_no_dot [of url] by simp
qed

text \<open>
  C10, as the code has it. For every title and URL the image file name
  \<open>sanitize_filename(title) + "." + ext\<close> contains exactly one \<open>.\<close>. When the sanitized
  title is not empty and the extension is not empty and has no \<open>/\<close>, \<open>Path(...).stem\<close> of
  the file name, alone or joined under a directory, is the sanitized title.
\<close>

theorem filename_one_dot_and_stem:
  "get_file_extension url = Inr ext \<longrightarrow>
     count_list (sanitize_filename t @ ''.'' @ ext) CHR ''.'' = 1
     \<and> (sanitize_filename t \<noteq> [] \<and> ext \<noteq> [] \<and> CHR ''/'' \<notin> set ext \<longrightarrow>
          path_stem (sanitize_filename t @ ''.'' @ ext) = sanitize_filename t
          \<and> path_stem (os_path_join dir (sanitize_filename t @ ''.'' @ ext)) = sanitize_filename t)"
proof (intro impI conjI)
  assume g: "get_file_extension url = Inr ext"
  then have nd: "CHR ''.'' \<notin> set ext" by (rule get_file_extension_no_dot_in_result)
  show "count_list (sanitize_filename t @ ''.'' @ ext) CHR ''.'' = 1"
    using nd sanitize_no_dot [of t] by (simp add: count_list_0_iff)
  assume h: "sanitize_filename t \<noteq> [] \<and> ext \<noteq> [] \<and> CHR ''/'' \<notin> set ext"
  let ?f = "sanitize_filename t @ ''.'' @ ext"
  have f1: "CHR ''/'' \<notin> set ?f" using h sanitize_no_slash [of t] by simp
  have f2: "?f \<noteq> []" by simp
  have f3: "?f \<noteq> ''.''" using h by (cases "sanitize_filename t") auto
  show "path_stem ?f = sanitize_filename t"
    using h nd sanitize_no_dot [of t] path_name_plain [OF f1 f2 f3]
    by (intro stem_of_name [of _ ext]) auto
  show "path_stem (os_path_join dir ?f) = sanitize_filename t"
    using h nd sanitize_no_dot [of t] path_name_join [OF f1 f2 f3, of dir]
    by (intro stem_of_name [of _ ext]) auto
qed

theorem filename_one_dot_and_stem_witness:
  "get_file_extension ''//imgs.xkcd.com/comics/test_comic.png'' = Inr ''png''
   \<and> sanitize_filename ''Test: Comic?'' = ''Test Comic''
   \<and> count_list ''Test Comic.png'' CHR ''.'' = 1
   \<and> path_stem ''Test Comic.png'' = ''Test Comic''
   \<and> path_stem ''/repo/data/2024-01-20/Test Comic.png'' = ''Test Comic''"
proof -
  have g: "get_file_extension ''//imgs.xkcd.com/comics/test_comic.png'' = Inr ''png''"
    by (simp add: get_file_extension_def index_last_def)
  have s: "sanitize_filename ''Test: Comic?'' = ''Test Comic''"
    by (simp add: sanitize_filename_def INVALID_FILENAME_CHARS_def)
  have j: "os_path_join ''/repo/data/2024-01-20'' ''Test Comic.png'' = ''/repo/data/2024-01-20/Test Comic.png''"
    by (simp add: os_path_join_def startswith_def endswith_def)
  from filename_one_dot_and_stem [of "''//imgs.xkcd.com/comics/test_comic.png''" "''png''"
      "''Test: Comic?''" "''/repo/data/2024-01-20''"] g s j
  show ?thesis by simp
qed

text \<open>
  C10 as stated fails for a title made of denylisted characters only: the title \<open>...\<close>
  is sanitized to the empty string, the file is \<open>.png\<close>, and the stem of \<open>.png\<close> is
  \<open>.png\<close>, not the empty string. It also fails when the image URL has no dot after its
  last \<open>/\<close>: the extension then holds path separators and the stem is taken from the
  last path component.
\<close>

theorem stem_roundtrip_counterexample:
  "get_file_extension ''//imgs.xkcd.com/comics/dots.png'' = Inr ''png''
   \<and> sanitize_filename ''...'' = []
   \<and> sanitize_filename ''...'' @ ''.'' @ ''png'' = ''.png''
   \<and> path_stem (sanitize_filename ''...'' @ ''.'' @ ''png'') = ''.png''
   \<and> path_stem (sanitize_filename ''...'' @ ''.'' @ ''png'') \<noteq> sanitize_filename ''...''
   \<and> get_file_extension ''//imgs.xkcd.com/comics/x'' = Inr ''com/comics/x''
   \<and> sanitize_filename ''Test Comic'' = ''Test Comic''
   \<and> path_stem (sanitize_filename ''Test Comic'' @ ''.'' @ ''com/comics/x'') = ''x''"
  by (simp add: get_file_extension_def index_last_def sanitize_filename_def
        INVALID_FILENAME_CHARS_def path_stem_def path_name_def rfind_def)

subsection \<open>get_comic: the steps run in sequence and stop at the first failure\<close>

lemma requests_of_append [simp]: "requests_of (a @ b) = requests_of a @ requests_of b"
  by (simp add: requests_of_def)

lemma writes_of_append [simp]: "writes_of (a @ b) = writes_of a @ writes_of b"
  by (simp add: writes_of_def)

lemma text_writes_of_append [simp]: "text_writes_of (a @ b) = text_writes_of a @ text_writes_of b"
  by (simp add: text_writes_of_def)

lemma observe_events [simp]:
  "requests_of [] = []" "writes_of [] = []" "text_writes_of [] = []"
  "requests_of (HttpGet u # es) = u # requests_of es"
  "requests_of (Print l # es) = requests_of es"
  "requests_of (WriteBinary p b # es) = requests_of es"
  "requests_of (WriteText p t # es) = requests_of es"
  "writes_of (HttpGet u # es) = writes_of es"
  "writes_of (Print l # es) = writes_of es"
  "writes_of (WriteBinary p b # es) = p # writes_of es"
  "writes_of (WriteText p t # es) = p # writes_of es"
  "text_writes_of (HttpGet u # es) = text_writes_of es"
  "text_writes_of (Print l # es) = text_writes_of es"
  "text_writes_of (WriteBinary p b # es) = text_writes_of es"
  "text_writes_of (WriteText p t # es) = p # text_writes_of es"
  by (simp_all add: requests_of_def writes_of_def text_writes_of_def)

lemma fetch_webpage_None:
  "fetch_webpage w tr url = (Inr None, t1) \<Longrightarrow>
   \<exists>line. t1 = tr @ [HttpGet url, Print line]"
  by (auto simp: fetch_webpage_def split: http_outcome.splits option.splits)

lemma fetch_webpage_Some:
  "fetch_webpage w tr url = (Inr (Some soup), t1) \<Longrightarrow> t1 = tr @ [HttpGet url]"
  by (auto simp: fetch_webpage_def split: http_outcome.splits option.splits)

lemma fetch_webpage_raises:
  "fetch_webpage w tr url = (Inl x, t1) \<Longrightarrow> t1 = tr @ [HttpGet url]"
  by (auto simp: fetch_webpage_def split: http_outcome.splits option.splits)

lemma extract_comic_data_None:
  "extract_comic_data t1 soup = (None, t2) \<Longrightarrow> \<exists>line. t2 = t1 @ [Print line]"
  by (auto simp: extract_comic_data_def split: sum.splits)

lemma extract_comic_data_Some:
  "extract_comic_data t1 soup = (Some d, t2) \<Longrightarrow> t2 = t1"
  by (auto simp: extract_comic_data_def split: sum.splits)

lemma download_image_None:
  "download_image w t2 u = (Inr None, t3) \<Longrightarrow>
   \<exists>line. t3 = t2 @ [HttpGet (if startswith u ''//'' then ''https:'' @ u else u), Print line]"
  by (auto simp: download_image_def Let_def split: http_outcome.splits option.splits)

lemma download_image_Some:
  "download_image w t2 u = (Inr (Some data), t3) \<Longrightarrow>
   t3 = t2 @ [HttpGet (if startswith u ''//'' then ''https:'' @ u else u)]"
  by (auto simp: download_image_def Let_def split: http_outcome.splits option.splits if_splits)

lemma download_image_raises:
  "download_image w t2 u = (Inl x, t3) \<Longrightarrow>
   t3 = t2 @ [HttpGet (if startswith u ''//'' then ''https:'' @ u else u)]"
  by (auto simp: download_image_def Let_def split: http_outcome.splits option.splits if_splits)

lemma save_image_False:
  "save_image w t3 data path = (Inr False, t4) \<Longrightarrow>
   (\<exists>line. t4 = t3 @ [Print line]) \<or> (\<exists>line. t4 = t3 @ [WriteBinary path data, Print line])"
  by (auto simp: save_image_def split: io_outcome.splits)

lemma save_image_True:
  "save_image w t3 data path = (Inr True, t4) \<Longrightarrow> t4 = t3 @ [WriteBinary path data]"
  by (auto simp: save_image_def split: io_outcome.splits)

lemma save_image_raises:
  "save_image w t3 data path = (Inl x, t4) \<Longrightarrow> t4 = t3 \<or> t4 = t3 @ [WriteBinary path data]"
  by (auto simp: save_image_def split: io_outcome.splits)

lemma save_transcript_False:
  "save_transcript w t4 txt path = (Inr False, t5) \<Longrightarrow>
   (\<exists>line. t5 = t4 @ [Print line]) \<or> (\<exists>line. t5 = t4 @ [WriteText path txt, Print line])"
  by (auto simp: save_transcript_def split: io_outcome.splits)

lemma save_transcript_True:
  "save_transcript w t4 txt path = (Inr True, t5) \<Longrightarrow> t5 = t4 @ [WriteText path txt]"
  by (auto simp: save_transcript_def split: io_outcome.splits)

lemma save_transcript_raises:
  "save_transcript w t4 txt path = (Inl x, t5) \<Longrightarrow> t5 = t4 \<or> t5 = t4 @ [WriteText path txt]"
  by (auto simp: save_transcript_def split: io_outcome.splits)

lemma get_comic_fetch_fails:
  assumes "fetch_webpage w tr (XKCD_BASE_URL @ str_of_int n) = (Inr None, t1)"
  shows "get_comic w tr n = (Inr False, t1)
         \<and> requests_of t1 = requests_of tr @ [XKCD_BASE_URL @ str_of_int n]
         \<and> writes_of t1 = writes_of tr"
  using assms fetch_webpage_None [OF assms(1)]
  by (auto simp: get_comic_def Let_def)

lemma get_comic_extract_fails:
  assumes "fetch_webpage w tr (XKCD_BASE_URL @ str_of_int n) = (Inr (Some soup), t1)"
    and "extract_comic_data t1 soup = (None, t2)"
  shows "get_comic w tr n = (Inr False, t2)
         \<and> requests_of t2 = requests_of tr @ [XKCD_BASE_URL @ str_of_int n]
         \<and> writes_of t2 = writes_of tr"
  using assms fetch_webpage_Some [OF assms(1)] extract_comic_data_None [OF assms(2)]
  by (auto simp: get_comic_def Let_def)

lemma get_comic_download_fails:
  assumes "fetch_webpage w tr (XKCD_BASE_URL @ str_of_int n) = (Inr (Some soup), t1)"
    and "extract_comic_data t1 soup = (Some d, t2)"
    and "download_image w t2 (image_url d) = (Inr None, t3)"
  shows "get_comic w tr n = (Inr False, t3)
         \<and> requests_of t3 = requests_of tr @ [XKCD_BASE_URL @ str_of_int n, (if startswith (image_url d) ''//'' then ''https:'' @ image_url d else image_url d)]
         \<and> writes_of t3 = writes_of tr"
  using assms fetch_webpage_Some [OF assms(1)] extract_comic_data_Some [OF assms(2)] download_image_None [OF assms(3)]
  by (auto simp: get_comic_def Let_def)

lemma get_comic_save_image_fails:
  assumes "fetch_webpage w tr (XKCD_BASE_URL @ str_of_int n) = (Inr (Some soup), t1)"
    and "extract_comic_data t1 soup = (Some d, t2)"
    and "download_image w t2 (image_url d) = (Inr (Some data), t3)"
    and "get_file_extension (image_url d) = Inr ext"
    and "save_image w t3 data (sanitize_filename (title d) @ ''.'' @ ext) = (Inr False, t4)"
  shows "get_comic w tr n = (Inr False, t4)
         \<and> text_writes_of t4 = text_writes_of tr
         \<and> (writes_of t4 = writes_of tr \<or> writes_of t4 = writes_of tr @ [sanitize_filename (title d) @ ''.'' @ ext])"
  using assms fetch_webpage_Some [OF assms(1)] extract_comic_data_Some [OF assms(2)] download_image_Some [OF assms(3)] save_image_False [OF assms(5)]
  by (auto simp: get_comic_def Let_def)

lemma get_comic_save_transcript_fails:
  assumes "fetch_webpage w tr (XKCD_BASE_URL @ str_of_int n) = (Inr (Some soup), t1)"
    and "extract_comic_data t1 soup = (Some d, t2)"
    and "download_image w t2 (image_url d) = (Inr (Some data), t3)"
    and "get_file_extension (image_url d) = Inr ext"
    and "save_image w t3 data (sanitize_filename (title d) @ ''.'' @ ext) = (Inr True, t4)"
    and "save_transcript w t4 (transcript d) (sanitize_filename (title d) @ ''_transcript.txt'') = (Inr False, t5)"
  shows "get_comic w tr n = (Inr False, t5)
         \<and> (writes_of t5 = writes_of tr @ [sanitize_filename (title d) @ ''.'' @ ext]
               \<or> writes_of t5 = writes_of tr @ [sanitize_filename (title d) @ ''.'' @ ext, sanitize_filename (title d) @ ''_transcript.txt''])"
  using assms fetch_webpage_Some [OF assms(1)] extract_comic_data_Some [OF assms(2)] download_image_Some [OF assms(3)] save_image_True [OF assms(5)] save_transcript_False [OF assms(6)]
  by (auto simp: get_comic_def Let_def)

lemma get_comic_succeeds:
  assumes "fetch_webpage w tr (XKCD_BASE_URL @ str_of_int n) = (Inr (Some soup), t1)"
    and "extract_comic_data t1 soup = (Some d, t2)"
    and "download_image w t2 (image_url d) = (Inr (Some data), t3)"
    and "get_file_extension (image_url d) = Inr ext"
    and "save_image w t3 data (sanitize_filename (title d) @ ''.'' @ ext) = (Inr True, t4)"
    and "save_transcript w t4 (transcript d) (sanitize_filename (title d) @ ''_transcript.txt'') = (Inr True, t5)"
  shows "get_comic w tr n =
              (Inr True,
               tr @ [HttpGet (XKCD_BASE_URL @ str_of_int n),
                     HttpGet (if startswith (image_url d) ''//'' then ''https:'' @ image_url d else image_url d),
                     WriteBinary (sanitize_filename (title d) @ ''.'' @ ext) data,
                     WriteText (sanitize_filename (title d) @ ''_transcript.txt'') (transcript d),
                     Print (''Successfully downloaded comic '' @ str_of_int n @ '': '' @ title d)])"
  using assms fetch_webpage_Some [OF assms(1)] extract_comic_data_Some [OF assms(2)] download_image_Some [OF assms(3)] save_image_True [OF assms(5)] save_transcript_True [OF assms(6)]
  by (auto simp: get_comic_def Let_def)

lemma get_comic_fetch_raises:
  assumes "fetch_webpage w tr (XKCD_BASE_URL @ str_of_int n) = (Inl x, t1)"
  shows "get_comic w tr n = (Inl x, t1)
         \<and> requests_of t1 = requests_of tr @ [XKCD_BASE_URL @ str_of_int n]
         \<and> writes_of t1 = writes_of tr"
  using assms fetch_webpage_raises [OF assms(1)]
  by (auto simp: get_comic_def Let_def)

lemma get_comic_download_raises:
  assumes "fetch_webpage w tr (XKCD_BASE_URL @ str_of_int n) = (Inr (Some soup), t1)"
    and "extract_comic_data t1 soup = (Some d, t2)"
    and "download_image w t2 (image_url d) = (Inl x, t3)"
  shows "get_comic w tr n = (Inl x, t3)
         \<and> writes_of t3 = writes_of tr"
  using assms fetch_webpage_Some [OF assms(1)] extract_comic_data_Some [OF assms(2)] download_image_raises [OF assms(3)]
  by (auto simp: get_comic_def Let_def)

lemma get_comic_save_image_raises:
  assumes "fetch_webpage w tr (XKCD_BASE_URL @ str_of_int n) = (Inr (Some soup), t1)"
    and "extract_comic_data t1 soup = (Some d, t2)"
    and "download_image w t2 (image_url d) = (Inr (Some data), t3)"
    and "get_file_extension (image_url d) = Inr ext"
    and "save_image w t3 data (sanitize_filename (title d) @ ''.'' @ ext) = (Inl x, t4)"
  shows "get_comic w tr n = (Inl x, t4)
         \<and> text_writes_of t4 = text_writes_of tr"
  using assms fetch_webpage_Some [OF assms(1)] extract_comic_data_Some [OF assms(2)] download_image_Some [OF assms(3)] save_image_raises [OF assms(5)]
  by (auto simp: get_comic_def Let_def)

lemma get_comic_save_transcript_raises:
  assumes "fetch_webpage w tr (XKCD_BASE_URL @ str_of_int n) = (Inr (Some soup), t1)"
    and "extract_comic_data t1 soup = (Some d, t2)"
    and "download_image w t2 (image_url d) = (Inr (Some data), t3)"
    and "get_file_extension (image_url d) = Inr ext"
    and "save_image w t3 data (sanitize_filename (title d) @ ''.'' @ ext) = (Inr True, t4)"
    and "save_transcript w t4 (transcript d) (sanitize_filename (title d) @ ''_transcript.txt'') = (Inl x, t5)"
  shows "get_comic w tr n = (Inl x, t5)
         \<and> (text_writes_of t5 = text_writes_of tr
               \<or> text_writes_of t5 = text_writes_of tr @ [sanitize_filename (title d) @ ''_transcript.txt''])"
  using assms fetch_webpage_Some [OF assms(1)] extract_comic_data_Some [OF assms(2)] download_image_Some [OF assms(3)] save_image_True [OF assms(5)] save_transcript_raises [OF assms(6)]
  by (auto simp: get_comic_def Let_def)

text \<open>
  C1. \<open>get_comic\<close> fetches, extracts, sanitizes the title, downloads the image, saves the
  image and saves the transcript in this order. A step fails when it returns its failure
  value (\<open>None\<close> or \<open>False\<close>, after printing its message); \<open>get_comic\<close> then returns
  \<open>False\<close> at once, with the effects of the steps before it and nothing after. A failed
  fetch or a failed extraction leaves one request (the page) and no write; a failed image
  download leaves two requests and no write, so no transcript file either; a failed image
  save leaves no transcript write. When every step succeeds the run is exactly page
  request, image request, image write, transcript write, status line. An exception that a
  step does not catch leaves \<open>get_comic\<close> as that exception, also with no later step run.
\<close>

theorem get_comic_short_circuits:
  "(fetch_webpage w tr (XKCD_BASE_URL @ str_of_int n) = (Inr None, t1) \<longrightarrow>
        get_comic w tr n = (Inr False, t1)
        \<and> requests_of t1 = requests_of tr @ [XKCD_BASE_URL @ str_of_int n]
        \<and> writes_of t1 = writes_of tr)
   \<and> (fetch_webpage w tr (XKCD_BASE_URL @ str_of_int n) = (Inr (Some soup), t1)
        \<and> extract_comic_data t1 soup = (None, t2) \<longrightarrow>
        get_comic w tr n = (Inr False, t2)
        \<and> requests_of t2 = requests_of tr @ [XKCD_BASE_URL @ str_of_int n]
        \<and> writes_of t2 = writes_of tr)
   \<and> (fetch_webpage w tr (XKCD_BASE_URL @ str_of_int n) = (Inr (Some soup), t1)
        \<and> extract_comic_data t1 soup = (Some d, t2)
        \<and> download_image w t2 (image_url d) = (Inr None, t3) \<longrightarrow>
        get_comic w tr n = (Inr False, t3)
        \<and> requests_of t3 = requests_of tr @ [XKCD_BASE_URL @ str_of_int n, (if startswith (image_url d) ''//'' then ''https:'' @ image_url d else image_url d)]
        \<and> writes_of t3 = writes_of tr)
   \<and> (fetch_webpage w tr (XKCD_BASE_URL @ str_of_int n) = (Inr (Some soup), t1)
        \<and> extract_comic_data t1 soup = (Some d, t2)
        \<and> download_image w t2 (image_url d) = (Inr (Some data), t3)
        \<and> get_file_extension (image_url d) = Inr ext
        \<and> save_image w t3 data (sanitize_filename (title d) @ ''.'' @ ext) = (Inr False, t4) \<longrightarrow>
        get_comic w tr n = (Inr False, t4)
        \<and> text_writes_of t4 = text_writes_of tr
        \<and> (writes_of t4 = writes_of tr \<or> writes_of t4 = writes_of tr @ [sanitize_filename (title d) @ ''.'' @ ext]))
   \<and> (fetch_webpage w tr (XKCD_BASE_URL @ str_of_int n) = (Inr (Some soup), t1)
        \<and> extract_comic_data t1 soup = (Some d, t2)
        \<and> download_image w t2 (image_url d) = (Inr (Some data), t3)
        \<and> get_file_extension (image_url d) = Inr ext
        \<and> save_image w t3 data (sanitize_filename (title d) @ ''.'' @ ext) = (Inr True, t4)
        \<and> save_transcript w t4 (transcript d) (sanitize_filename (title d) @ ''_transcript.txt'') = (Inr False, t5) \<longrightarrow>
        get_comic w tr n = (Inr False, t5)
        \<and> (writes_of t5 = writes_of tr @ [sanitize_filename (title d) @ ''.'' @ ext]
                   \<or> writes_of t5 = writes_of tr @ [sanitize_filename (title d) @ ''.'' @ ext, sanitize_filename (title d) @ ''_transcript.txt'']))
   \<and> (fetch_webpage w tr (XKCD_BASE_URL @ str_of_int n) = (Inr (Some soup), t1)
        \<and> extract_comic_data t1 soup = (Some d, t2)
        \<and> download_image w t2 (image_url d) = (Inr (Some data), t3)
        \<and> get_file_extension (image_url d) = Inr ext
        \<and> save_image w t3 data (sanitize_filename (title d) @ ''.'' @ ext) = (Inr True, t4)
        \<and> save_transcript w t4 (transcript d) (sanitize_filename (title d) @ ''_transcript.txt'') = (Inr True, t5) \<longrightarrow>
        get_comic w tr n =
                  (Inr True,
                   tr @ [HttpGet (XKCD_BASE_URL @ str_of_int n),
                         HttpGet (if startswith (image_url d) ''//'' then ''https:'' @ image_url d else image_url d),
                         WriteBinary (sanitize_filename (title d) @ ''.'' @ ext) data,
                         WriteText (sanitize_filename (title d) @ ''_transcript.txt'') (transcript d),
                         Print (''Successfully downloaded comic '' @ str_of_int n @ '': '' @ title d)]))
   \<and> (fetch_webpage w tr (XKCD_BASE_URL @ str_of_int n) = (Inl x, t1) \<longrightarrow>
        get_comic w tr n = (Inl x, t1)
        \<and> requests_of t1 = requests_of tr @ [XKCD_BASE_URL @ str_of_int n]
        \<and> writes_of t1 = writes_of tr)
   \<and> (fetch_webpage w tr (XKCD_BASE_URL @ str_of_int n) = (Inr (Some soup), t1)
        \<and> extract_comic_data t1 soup = (Some d, t2)
        \<and> download_image w t2 (image_url d) = (Inl x, t3) \<longrightarrow>
        get_comic w tr n = (Inl x, t3)
        \<and> writes_of t3 = writes_of tr)
   \<and> (fetch_webpage w tr (XKCD_BASE_URL @ str_of_int n) = (Inr (Some soup), t1)
        \<and> extract_comic_data t1 soup = (Some d, t2)
        \<and> download_image w t2 (image_url d) = (Inr (Some data), t3)
        \<and> get_file_extension (image_url d) = Inr ext
        \<and> save_image w t3 data (sanitize_filename (title d) @ ''.'' @ ext) = (Inl x, t4) \<longrightarrow>
        get_comic w tr n = (Inl x, t4)
        \<and> text_writes_of t4 = text_writes_of tr)
   \<and> (fetch_webpage w tr (XKCD_BASE_URL @ str_of_int n) = (Inr (Some soup), t1)
        \<and> extract_comic_data t1 soup = (Some d, t2)
        \<and> download_image w t2 (image_url d) = (Inr (Some data), t3)
        \<and> get_file_extension (image_url d) = Inr ext
        \<and> save_image w t3 data (sanitize_filename (title d) @ ''.'' @ ext) = (Inr True, t4)
        \<and> save_transcript w t4 (transcript d) (sanitize_filename (title d) @ ''_transcript.txt'') = (Inl x, t5) \<longrightarrow>
        get_comic w tr n = (Inl x, t5)
        \<and> (text_writes_of t5 = text_writes_of tr
                   \<or> text_writes_of t5 = text_writes_of tr @ [sanitize_filename (title d) @ ''_transcript.txt'']))"
proof (intro conjI impI; (elim conjE)?)
  assume a: "fetch_webpage w tr (XKCD_BASE_URL @ str_of_int n) = (Inr None, t1)"
  from get_comic_fetch_fails [OF a]
  show "get_comic w tr n = (Inr False, t1)"
    and "requests_of t1 = requests_of tr @ [XKCD_BASE_URL @ str_of_int n]"
    and "writes_of t1 = writes_of tr"
    by auto
next
  assume a: "fetch_webpage w tr (XKCD_BASE_URL @ str_of_int n) = (Inr (Some soup), t1)"
    "extract_comic_data t1 soup = (None, t2)"
  from get_comic_extract_fails [OF a]
  show "get_comic w tr n = (Inr False, t2)"
    and "requests_of t2 = requests_of tr @ [XKCD_BASE_URL @ str_of_int n]"
    and "writes_of t2 = writes_of tr"
    by auto
next
  assume a: "fetch_webpage w tr (XKCD_BASE_URL @ str_of_int n) = (Inr (Some soup), t1)"
    "extract_comic_data t1 soup = (Some d, t2)"
    "download_image w t2 (image_url d) = (Inr None, t3)"
  from get_comic_download_fails [OF a]
  show "get_comic w tr n = (Inr False, t3)"
    and "requests_of t3 = requests_of tr @ [XKCD_BASE_URL @ str_of_int n, (if startswith (image_url d) ''//'' then ''https:'' @ image_url d else image_url d)]"
    and "writes_of t3 = writes_of tr"
    by auto
next
  assume a: "fetch_webpage w tr (XKCD_BASE_URL @ str_of_int n) = (Inr (Some soup), t1)"
    "extract_comic_data t1 soup = (Some d, t2)"
    "download_image w t2 (image_url d) = (Inr (Some data), t3)"
    "get_file_extension (image_url d) = Inr ext"
    "save_image w t3 data (sanitize_filename (title d) @ ''.'' @ ext) = (Inr False, t4)"
  from get_comic_save_image_fails [OF a]
  show "get_comic w tr n = (Inr False, t4)"
    and "text_writes_of t4 = text_writes_of tr"
    and "(writes_of t4 = writes_of tr \<or> writes_of t4 = writes_of tr @ [sanitize_filename (title d) @ ''.'' @ ext])"
    by auto
next
  assume a: "fetch_webpage w tr (XKCD_BASE_URL @ str_of_int n) = (Inr (Some soup), t1)"
    "extract_comic_data t1 soup = (Some d, t2)"
    "download_image w t2 (image_url d) = (Inr (Some data), t3)"
    "get_file_extension (image_url d) = Inr ext"
    "save_image w t3 data (sanitize_filename (title d) @ ''.'' @ ext) = (Inr True, t4)"
    "save_transcript w t4 (transcript d) (sanitize_filename (title d) @ ''_transcript.txt'') = (Inr False, t5)"
  from get_comic_save_transcript_fails [OF a]
  show "get_comic w tr n = (Inr False, t5)"
    and "(writes_of t5 = writes_of tr @ [sanitize_filename (title d) @ ''.'' @ ext]
               \<or> writes_of t5 = writes_of tr @ [sanitize_filename (title d) @ ''.'' @ ext, sanitize_filename (title d) @ ''_transcript.txt''])"
    by auto
next
  assume a: "fetch_webpage w tr (XKCD_BASE_URL @ str_of_int n) = (Inr (Some soup), t1)"
    "extract_comic_data t1 soup = (Some d, t2)"
    "download_image w t2 (image_url d) = (Inr (Some data), t3)"
    "get_file_extension (image_url d) = Inr ext"
    "save_image w t3 data (sanitize_filename (title d) @ ''.'' @ ext) = (Inr True, t4)"
    "save_transcript w t4 (transcript d) (sanitize_filename (title d) @ ''_transcript.txt'') = (Inr True, t5)"
  from get_comic_succeeds [OF a]
  show "get_comic w tr n =
              (Inr True,
               tr @ [HttpGet (XKCD_BASE_URL @ str_of_int n),
                     HttpGet (if startswith (image_url d) ''//'' then ''https:'' @ image_url d else image_url d),
                     WriteBinary (sanitize_filename (title d) @ ''.'' @ ext) data,
                     WriteText (sanitize_filename (title d) @ ''_transcript.txt'') (transcript d),
                     Print (''Successfully downloaded comic '' @ str_of_int n @ '': '' @ title d)])"
    .
next
  assume a: "fetch_webpage w tr (XKCD_BASE_URL @ str_of_int n) = (Inl x, t1)"
  from get_comic_fetch_raises [OF a]
  show "get_comic w tr n = (Inl x, t1)"
    and "requests_of t1 = requests_of tr @ [XKCD_BASE_URL @ str_of_int n]"
    and "writes_of t1 = writes_of tr"
    by auto
next
  assume a: "fetch_webpage w tr (XKCD_BASE_URL @ str_of_int n) = (Inr (Some soup), t1)"
    "extract_comic_data t1 soup = (Some d, t2)"
    "download_image w t2 (image_url d) = (Inl x, t3)"
  from get_comic_download_raises [OF a]
  show "get_comic w tr n = (Inl x, t3)"
    and "writes_of t3 = writes_of tr"
    by auto
next
  assume a: "fetch_webpage w tr (XKCD_BASE_URL @ str_of_int n) = (Inr (Some soup), t1)"
    "extract_comic_data t1 soup = (Some d, t2)"
    "download_image w t2 (image_url d) = (Inr (Some data), t3)"
    "get_file_extension (image_url d) = Inr ext"
    "save_image w t3 data (sanitize_filename (title d) @ ''.'' @ ext) = (Inl x, t4)"
  from get_comic_save_image_raises [OF a]
  show "get_comic w tr n = (Inl x, t4)"
    and "text_writes_of t4 = text_writes_of tr"
    by auto
next
  assume a: "fetch_webpage w tr (XKCD_BASE_URL @ str_of_int n) = (Inr (Some soup), t1)"
    "extract_comic_data t1 soup = (Some d, t2)"
    "download_image w t2 (image_url d) = (Inr (Some data), t3)"
    "get_file_extension (image_url d) = Inr ext"
    "save_image w t3 data (sanitize_filename (title d) @ ''.'' @ ext) = (Inr True, t4)"
    "save_transcript w t4 (transcript d) (sanitize_filename (title d) @ ''_transcript.txt'') = (Inl x, t5)"
  from get_comic_save_transcript_raises [OF a]
  show "get_comic w tr n = (Inl x, t5)"
    and "(text_writes_of t5 = text_writes_of tr
               \<or> text_writes_of t5 = text_writes_of tr @ [sanitize_filename (title d) @ ''_transcript.txt''])"
    by auto
qed

lemmas sample_defs = sample_world_def sample_net_def sample_soup_def sample_img_def
  soup_without_transcript_def read_only_disk_def transcript_disk_full_def unreachable_net_def
  empty_label_net_def bad_image_host_net_def nul_in_path_def surrogate_in_transcript_def

lemmas step_defs = fetch_webpage_def extract_comic_data_def extract_fields_def download_image_def
  save_image_def save_transcript_def raise_for_status_def get_file_extension_def index_last_def
  sanitize_filename_def INVALID_FILENAME_CHARS_def XKCD_BASE_URL_def str_of_int_def digit_char_def
  startswith_def endswith_def quoted_def no_attribute_def Let_def

theorem get_comic_short_circuits_witness:
  "get_comic (sample_world (sample_net 404 200) sample_soup []) [] 614 =
     (Inr False, [HttpGet ''https://xkcd.com/614'',
             Print ''Error fetching https://xkcd.com/614: 404 Client Error: Page for url: https://xkcd.com/614''])
   \<and> get_comic (sample_world (sample_net 200 200) soup_without_transcript []) [] 614 =
     (Inr False, [HttpGet ''https://xkcd.com/614'',
             Print (''Error extracting comic data: '' @ no_attribute ''get_text'')])
   \<and> get_comic (sample_world (sample_net 200 404) sample_soup []) [] 614 =
     (Inr False, [HttpGet ''https://xkcd.com/614'',
             HttpGet ''https://imgs.xkcd.com/comics/test_comic.png'',
             Print ''Error downloading image from https://imgs.xkcd.com/comics/test_comic.png: 404 Client Error: Image for url: https://imgs.xkcd.com/comics/test_comic.png''])
   \<and> get_comic (read_only_disk (sample_world (sample_net 200 200) sample_soup [])) [] 614 =
     (Inr False, [HttpGet ''https://xkcd.com/614'',
             HttpGet ''https://imgs.xkcd.com/comics/test_comic.png'',
             Print ''Error saving image to Test Comic.png: [Errno 13] Permission denied''])
   \<and> get_comic (transcript_disk_full (sample_world (sample_net 200 200) sample_soup [])) [] 614 =
     (Inr False, [HttpGet ''https://xkcd.com/614'',
             HttpGet ''https://imgs.xkcd.com/comics/test_comic.png'',
             WriteBinary ''Test Comic.png'' ''PNGDATA'',
             WriteText ''Test Comic_transcript.txt'' ''[[A test]]'',
             Print ''Error saving transcript to Test Comic_transcript.txt: [Errno 28] No space left on device''])
   \<and> get_comic (sample_world (sample_net 200 200) sample_soup []) [] 614 =
     (Inr True, [HttpGet ''https://xkcd.com/614'',
             HttpGet ''https://imgs.xkcd.com/comics/test_comic.png'',
             WriteBinary ''Test Comic.png'' ''PNGDATA'',
             WriteText ''Test Comic_transcript.txt'' ''[[A test]]'',
             Print ''Successfully downloaded comic 614: Test Comic''])
   \<and> get_comic (sample_world empty_label_net sample_soup []) [] 614 =
     (Inl (LocationParseError ''label empty or too long''), [HttpGet ''https://xkcd.com/614''])
   \<and> get_comic (sample_world bad_image_host_net sample_soup []) [] 614 =
     (Inl (LocationParseError ''label empty or too long''), [HttpGet ''https://xkcd.com/614'',
             HttpGet ''https://imgs.xkcd.com/comics/test_comic.png''])
   \<and> get_comic (nul_in_path (sample_world (sample_net 200 200) sample_soup [])) [] 614 =
     (Inl (ValueError ''embedded null byte''), [HttpGet ''https://xkcd.com/614'',
             HttpGet ''https://imgs.xkcd.com/comics/test_comic.png''])
   \<and> get_comic (surrogate_in_transcript (sample_world (sample_net 200 200) sample_soup [])) [] 614 =
     (Inl (UnicodeEncodeError ''surrogates not allowed''), [HttpGet ''https://xkcd.com/614'',
             HttpGet ''https://imgs.xkcd.com/comics/test_comic.png'',
             WriteBinary ''Test Comic.png'' ''PNGDATA'',
             WriteText ''Test Comic_transcript.txt'' ''[[A test]]''])
   \<and> writes_of (snd (get_comic (sample_world (sample_net 200 404) sample_soup []) [] 614)) = []"
proof -
  let ?page = "[HttpGet ''https://xkcd.com/614'']"
  let ?both = "[HttpGet ''https://xkcd.com/614'',
                HttpGet ''https://imgs.xkcd.com/comics/test_comic.png'']"
  let ?saved = "[HttpGet ''https://xkcd.com/614'',
                 HttpGet ''https://imgs.xkcd.com/comics/test_comic.png'',
                 WriteBinary ''Test Comic.png'' ''PNGDATA'']"
  let ?d = "\<lparr>image_url = ''//imgs.xkcd.com/comics/test_comic.png'', title = ''Test Comic'',
             transcript = ''[[A test]]''\<rparr>"
  note inst = get_comic_short_circuits [where tr = "[]" and n = 614]
  let ?w1 = "sample_world (sample_net 404 200) sample_soup []"
  let ?t1 = "[HttpGet ''https://xkcd.com/614'',
             Print ''Error fetching https://xkcd.com/614: 404 Client Error: Page for url: https://xkcd.com/614'']"
  have h1: "fetch_webpage ?w1 [] (XKCD_BASE_URL @ str_of_int 614) = (Inr None, ?t1)"
    by (simp add: sample_defs step_defs)
  note r1 = inst [where w = ?w1 and ?t1.0 = ?t1,
      THEN conjunct1, THEN mp, OF h1]
  have c1: "get_comic ?w1 [] 614 = (Inr False, ?t1)"
    using r1 by (rule conjunct1)
  let ?w2 = "sample_world (sample_net 200 200) soup_without_transcript []"
  let ?t2 = "[HttpGet ''https://xkcd.com/614'',
             Print (''Error extracting comic data: '' @ no_attribute ''get_text'')]"
  have h2: "fetch_webpage ?w2 [] (XKCD_BASE_URL @ str_of_int 614) = (Inr (Some soup_without_transcript), ?page)
            \<and> extract_comic_data ?page soup_without_transcript = (None, ?t2)"
    by (simp add: sample_defs step_defs)
  note r2 = inst [where w = ?w2 and ?t1.0 = ?page and soup = soup_without_transcript and ?t2.0 = ?t2,
      THEN conjunct2, THEN conjunct1, THEN mp, OF h2]
  have c2: "get_comic ?w2 [] 614 = (Inr False, ?t2)"
    using r2 by (rule conjunct1)
  let ?w3 = "sample_world (sample_net 200 404) sample_soup []"
  let ?t3 = "[HttpGet ''https://xkcd.com/614'',
             HttpGet ''https://imgs.xkcd.com/comics/test_comic.png'',
             Print ''Error downloading image from https://imgs.xkcd.com/comics/test_comic.png: 404 Client Error: Image for url: https://imgs.xkcd.com/comics/test_comic.png'']"
  have h3: "fetch_webpage ?w3 [] (XKCD_BASE_URL @ str_of_int 614) = (Inr (Some sample_soup), ?page)
            \<and> extract_comic_data ?page sample_soup = (Some ?d, ?page)
            \<and> download_image ?w3 ?page (image_url ?d) = (Inr None, ?t3)"
    by (simp add: sample_defs step_defs)
  note r3 = inst [where w = ?w3 and ?t1.0 = ?page and soup = sample_soup and ?t2.0 = ?page and d = ?d and ?t3.0 = ?t3,
      THEN conjunct2, THEN conjunct2, THEN conjunct1, THEN mp, OF h3]
  have c3: "get_comic ?w3 [] 614 = (Inr False, ?t3)"
    using r3 by (rule conjunct1)
  let ?w4 = "read_only_disk (sample_world (sample_net 200 200) sample_soup [])"
  let ?t4 = "[HttpGet ''https://xkcd.com/614'',
             HttpGet ''https://imgs.xkcd.com/comics/test_comic.png'',
             Print ''Error saving image to Test Comic.png: [Errno 13] Permission denied'']"
  have h4: "fetch_webpage ?w4 [] (XKCD_BASE_URL @ str_of_int 614) = (Inr (Some sample_soup), ?page)
            \<and> extract_comic_data ?page sample_soup = (Some ?d, ?page)
            \<and> download_image ?w4 ?page (image_url ?d) = (Inr (Some ''PNGDATA''), ?both)
            \<and> get_file_extension (image_url ?d) = Inr ''png''
            \<and> save_image ?w4 ?both ''PNGDATA'' (sanitize_filename (title ?d) @ ''.'' @ ''png'')
                = (Inr False, ?t4)"
    by (simp add: sample_defs step_defs)
  note r4 = inst [where w = ?w4 and ?t1.0 = ?page and soup = sample_soup and ?t2.0 = ?page and d = ?d and ?t3.0 = ?both and data = "''PNGDATA''" and ext = "''png''" and ?t4.0 = ?t4,
      THEN conjunct2, THEN conjunct2, THEN conjunct2, THEN conjunct1, THEN mp, OF h4]
  have c4: "get_comic ?w4 [] 614 = (Inr False, ?t4)"
    using r4 by (rule conjunct1)
  let ?w5 = "transcript_disk_full (sample_world (sample_net 200 200) sample_soup [])"
  let ?t5 = "[HttpGet ''https://xkcd.com/614'',
             HttpGet ''https://imgs.xkcd.com/comics/test_comic.png'',
             WriteBinary ''Test Comic.png'' ''PNGDATA'',
             WriteText ''Test Comic_transcript.txt'' ''[[A test]]'',
             Print ''Error saving transcript to Test Comic_transcript.txt: [Errno 28] No space left on device'']"
  have h5: "fetch_webpage ?w5 [] (XKCD_BASE_URL @ str_of_int 614) = (Inr (Some sample_soup), ?page)
            \<and> extract_comic_data ?page sample_soup = (Some ?d, ?page)
            \<and> download_image ?w5 ?page (image_url ?d) = (Inr (Some ''PNGDATA''), ?both)
            \<and> get_file_extension (image_url ?d) = Inr ''png''
            \<and> save_image ?w5 ?both ''PNGDATA'' (sanitize_filename (title ?d) @ ''.'' @ ''png'')
                = (Inr True, ?saved)
            \<and> save_transcript ?w5 ?saved (transcript ?d)
                  (sanitize_filename (title ?d) @ ''_transcript.txt'') = (Inr False, ?t5)"
    by (simp add: sample_defs step_defs)
  note r5 = inst [where w = ?w5 and ?t1.0 = ?page and soup = sample_soup and ?t2.0 = ?page and d = ?d and ?t3.0 = ?both and data = "''PNGDATA''" and ext = "''png''" and ?t4.0 = ?saved and ?t5.0 = ?t5,
      THEN conjunct2, THEN conjunct2, THEN conjunct2, THEN conjunct2, THEN conjunct1, THEN mp, OF h5]
  have c5: "get_comic ?w5 [] 614 = (Inr False, ?t5)"
    using r5 by (rule conjunct1)
  let ?w6 = "sample_world (sample_net 200 200) sample_soup []"
  let ?t6 = "[HttpGet ''https://xkcd.com/614'',
             HttpGet ''https://imgs.xkcd.com/comics/test_comic.png'',
             WriteBinary ''Test Comic.png'' ''PNGDATA'',
             WriteText ''Test Comic_transcript.txt'' ''[[A test]]'']"
  have h6: "fetch_webpage ?w6 [] (XKCD_BASE_URL @ str_of_int 614) = (Inr (Some sample_soup), ?page)
            \<and> extract_comic_data ?page sample_soup = (Some ?d, ?page)
            \<and> download_image ?w6 ?page (image_url ?d) = (Inr (Some ''PNGDATA''), ?both)
            \<and> get_file_extension (image_url ?d) = Inr ''png''
            \<and> save_image ?w6 ?both ''PNGDATA'' (sanitize_filename (title ?d) @ ''.'' @ ''png'')
                = (Inr True, ?saved)
            \<and> save_transcript ?w6 ?saved (transcript ?d)
                  (sanitize_filename (title ?d) @ ''_transcript.txt'') = (Inr True, ?t6)"
    by (simp add: sample_defs step_defs)
  note r6 = inst [where w = ?w6 and ?t1.0 = ?page and soup = sample_soup and ?t2.0 = ?page and d = ?d and ?t3.0 = ?both and data = "''PNGDATA''" and ext = "''png''" and ?t4.0 = ?saved and ?t5.0 = ?t6,
      THEN conjunct2, THEN conjunct2, THEN conjunct2, THEN conjunct2, THEN conjunct2, THEN conjunct1, THEN mp, OF h6]
  have c6: "get_comic ?w6 [] 614 = (Inr True, ?t6 @ [Print ''Successfully downloaded comic 614: Test Comic''])"
    using r6 by (simp add: step_defs)
  let ?w7 = "sample_world empty_label_net sample_soup []"
  let ?t7 = "[HttpGet ''https://xkcd.com/614'']"
  have h7: "fetch_webpage ?w7 [] (XKCD_BASE_URL @ str_of_int 614) = (Inl (LocationParseError ''label empty or too long''), ?t7)"
    by (simp add: sample_defs step_defs)
  note r7 = inst [where w = ?w7 and ?t1.0 = ?t7 and x = "LocationParseError ''label empty or too long''",
      THEN conjunct2, THEN conjunct2, THEN conjunct2, THEN conjunct2, THEN conjunct2, THEN conjunct2, THEN conjunct1, THEN mp, OF h7]
  have c7: "get_comic ?w7 [] 614 = (Inl (LocationParseError ''label empty or too long''), ?t7)"
    using r7 by (rule conjunct1)
  let ?w8 = "sample_world bad_image_host_net sample_soup []"
  let ?t8 = "[HttpGet ''https://xkcd.com/614'',
             HttpGet ''https://imgs.xkcd.com/comics/test_comic.png'']"
  have h8: "fetch_webpage ?w8 [] (XKCD_BASE_URL @ str_of_int 614) = (Inr (Some sample_soup), ?page)
            \<and> extract_comic_data ?page sample_soup = (Some ?d, ?page)
            \<and> download_image ?w8 ?page (image_url ?d) = (Inl (LocationParseError ''label empty or too long''), ?t8)"
    by (simp add: sample_defs step_defs)
  note r8 = inst [where w = ?w8 and ?t1.0 = ?page and soup = sample_soup and ?t2.0 = ?page and d = ?d and ?t3.0 = ?t8 and x = "LocationParseError ''label empty or too long''",
      THEN conjunct2, THEN conjunct2, THEN conjunct2, THEN conjunct2, THEN conjunct2, THEN conjunct2, THEN conjunct2, THEN conjunct1, THEN mp, OF h8]
  have c8: "get_comic ?w8 [] 614 = (Inl (LocationParseError ''label empty or too long''), ?t8)"
    using r8 by (rule conjunct1)
  let ?w9 = "nul_in_path (sample_world (sample_net 200 200) sample_soup [])"
  let ?t9 = "[HttpGet ''https://xkcd.com/614'',
             HttpGet ''https://imgs.xkcd.com/comics/test_comic.png'']"
  have h9: "fetch_webpage ?w9 [] (XKCD_BASE_URL @ str_of_int 614) = (Inr (Some sample_soup), ?page)
            \<and> extract_comic_data ?page sample_soup = (Some ?d, ?page)
            \<and> download_image ?w9 ?page (image_url ?d) = (Inr (Some ''PNGDATA''), ?both)
            \<and> get_file_extension (image_url ?d) = Inr ''png''
            \<and> save_image ?w9 ?both ''PNGDATA'' (sanitize_filename (title ?d) @ ''.'' @ ''png'')
                = (Inl (ValueError ''embedded null byte''), ?t9)"
    by (simp add: sample_defs step_defs)
  note r9 = inst [where w = ?w9 and ?t1.0 = ?page and soup = sample_soup and ?t2.0 = ?page and d = ?d and ?t3.0 = ?both and data = "''PNGDATA''" and ext = "''png''" and ?t4.0 = ?t9 and x = "ValueError ''embedded null byte''",
      THEN conjunct2, THEN conjunct2, THEN conjunct2, THEN conjunct2, THEN conjunct2, THEN conjunct2, THEN conjunct2, THEN conjunct2, THEN conjunct1, THEN mp, OF h9]
  have c9: "get_comic ?w9 [] 614 = (Inl (ValueError ''embedded null byte''), ?t9)"
    using r9 by (rule conjunct1)
  let ?w10 = "surrogate_in_transcript (sample_world (sample_net 200 200) sample_soup [])"
  let ?t10 = "[HttpGet ''https://xkcd.com/614'',
             HttpGet ''https://imgs.xkcd.com/comics/test_comic.png'',
             WriteBinary ''Test Comic.png'' ''PNGDATA'',
             WriteText ''Test Comic_transcript.txt'' ''[[A test]]'']"
  have h10: "fetch_webpage ?w10 [] (XKCD_BASE_URL @ str_of_int 614) = (Inr (Some sample_soup), ?page)
            \<and> extract_comic_data ?page sample_soup = (Some ?d, ?page)
            \<and> download_image ?w10 ?page (image_url ?d) = (Inr (Some ''PNGDATA''), ?both)
            \<and> get_file_extension (image_url ?d) = Inr ''png''
            \<and> save_image ?w10 ?both ''PNGDATA'' (sanitize_filename (title ?d) @ ''.'' @ ''png'')
                = (Inr True, ?saved)
            \<and> save_transcript ?w10 ?saved (transcript ?d)
                  (sanitize_filename (title ?d) @ ''_transcript.txt'') = (Inl (UnicodeEncodeError ''surrogates not allowed''), ?t10)"
    by (simp add: sample_defs step_defs)
  note r10 = inst [where w = ?w10 and ?t1.0 = ?page and soup = sample_soup and ?t2.0 = ?page and d = ?d and ?t3.0 = ?both and data = "''PNGDATA''" and ext = "''png''" and ?t4.0 = ?saved and ?t5.0 = ?t10 and x = "UnicodeEncodeError ''surrogates not allowed''",
      THEN conjunct2, THEN conjunct2, THEN conjunct2, THEN conjunct2, THEN conjunct2, THEN conjunct2, THEN conjunct2, THEN conjunct2, THEN conjunct2, THEN mp, OF h10]
  have c10: "get_comic ?w10 [] 614 = (Inl (UnicodeEncodeError ''surrogates not allowed''), ?t10)"
    using r10 by (rule conjunct1)
  have w3: "writes_of (snd (get_comic ?w3 [] 614)) = []"
    using r3 by (simp add: writes_of_def)
  from c1 c2 c3 c4 c5 c6 c7 c8 c9 c10 w3 show ?thesis by simp
qed

subsection \<open>get_current_comic: only the image is written\<close>

lemma get_current_comic_success:
  assumes "get_current_comic w tr = (Inr True, t)"
  shows "\<exists>soup d data ext.
           fetch_webpage w tr XKCD_BASE_URL = (Inr (Some soup), tr @ [HttpGet XKCD_BASE_URL])
           \<and> extract_comic_data (tr @ [HttpGet XKCD_BASE_URL]) soup
                = (Some d, tr @ [HttpGet XKCD_BASE_URL])
           \<and> get_file_extension (image_url d) = Inr ext
           \<and> t = tr @ [HttpGet XKCD_BASE_URL,
                  HttpGet (if startswith (image_url d) ''//'' then ''https:'' @ image_url d
                           else image_url d),
                  WriteBinary (sanitize_filename (title d) @ ''.'' @ ext) data,
                  Print (''Successfully downloaded current comic: '' @ title d)]
           \<and> writes_of t = writes_of tr @ [sanitize_filename (title d) @ ''.'' @ ext]"
proof -
  from assms obtain soup t1 where f: "fetch_webpage w tr XKCD_BASE_URL = (Inr (Some soup), t1)"
    by (cases "fetch_webpage w tr XKCD_BASE_URL")
       (auto simp: get_current_comic_def split: sum.splits option.splits)
  then have t1: "t1 = tr @ [HttpGet XKCD_BASE_URL]" by (rule fetch_webpage_Some)
  from assms f obtain d t2 where e: "extract_comic_data t1 soup = (Some d, t2)"
    by (cases "extract_comic_data t1 soup")
       (auto simp: get_current_comic_def split: option.splits)
  then have t2: "t2 = t1" by (rule extract_comic_data_Some)
  from assms f e obtain data t3
    where dl: "download_image w t2 (image_url d) = (Inr (Some data), t3)"
    by (cases "download_image w t2 (image_url d)")
       (auto simp: get_current_comic_def Let_def split: sum.splits option.splits)
  note t3 = download_image_Some [OF dl]
  obtain ext where x: "get_file_extension (image_url d) = Inr ext"
    using get_file_extension_total by blast
  from assms f e dl x obtain t4
    where s: "save_image w t3 data (sanitize_filename (title d) @ ''.'' @ ext) = (Inr True, t4)"
    by (cases "save_image w t3 data (sanitize_filename (title d) @ ''.'' @ ext)")
       (auto simp: get_current_comic_def Let_def split: sum.splits if_splits)
  note t4 = save_image_True [OF s]
  from assms f e dl x s
  have "t = t4 @ [Print (''Successfully downloaded current comic: '' @ title d)]"
    by (simp add: get_current_comic_def Let_def)
  with t1 t2 t3 t4
  have t: "t = tr @ [HttpGet XKCD_BASE_URL,
                  HttpGet (if startswith (image_url d) ''//'' then ''https:'' @ image_url d
                           else image_url d),
                  WriteBinary (sanitize_filename (title d) @ ''.'' @ ext) data,
                  Print (''Successfully downloaded current comic: '' @ title d)]"
    by simp
  then have w: "writes_of t = writes_of tr @ [sanitize_filename (title d) @ ''.'' @ ext]"
    by simp
  from f e x t t1 t2 w have
    "fetch_webpage w tr XKCD_BASE_URL = (Inr (Some soup), tr @ [HttpGet XKCD_BASE_URL])
           \<and> extract_comic_data (tr @ [HttpGet XKCD_BASE_URL]) soup
                = (Some d, tr @ [HttpGet XKCD_BASE_URL])
           \<and> get_file_extension (image_url d) = Inr ext
           \<and> t = tr @ [HttpGet XKCD_BASE_URL,
                  HttpGet (if startswith (image_url d) ''//'' then ''https:'' @ image_url d
                           else image_url d),
                  WriteBinary (sanitize_filename (title d) @ ''.'' @ ext) data,
                  Print (''Successfully downloaded current comic: '' @ title d)]
           \<and> writes_of t = writes_of tr @ [sanitize_filename (title d) @ ''.'' @ ext]"
    by simp
  then show ?thesis by (intro exI)
qed

lemma fetch_webpage_text_writes:
  "fetch_webpage w tr url = (r, t1) \<Longrightarrow> text_writes_of t1 = text_writes_of tr"
  by (auto simp: fetch_webpage_def split: http_outcome.splits option.splits)

lemma extract_comic_data_text_writes:
  "extract_comic_data t1 soup = (r, t2) \<Longrightarrow> text_writes_of t2 = text_writes_of t1"
  by (auto simp: extract_comic_data_def split: sum.splits)

lemma download_image_text_writes:
  "download_image w t2 u = (r, t3) \<Longrightarrow> text_writes_of t3 = text_writes_of t2"
  by (auto simp: download_image_def Let_def split: http_outcome.splits option.splits)

lemma save_image_text_writes:
  "save_image w t3 data path = (r, t4) \<Longrightarrow> text_writes_of t4 = text_writes_of t3"
  by (auto simp: save_image_def split: io_outcome.splits)

lemma get_current_comic_no_text_write:
  "text_writes_of (snd (get_current_comic w tr)) = text_writes_of tr"
proof -
  obtain r1 t1 where f: "fetch_webpage w tr XKCD_BASE_URL = (r1, t1)"
    by (cases "fetch_webpage w tr XKCD_BASE_URL")
  note ft = fetch_webpage_text_writes [OF f]
  show ?thesis
  proof (cases r1)
    case (Inl x)
    with f ft show ?thesis by (simp add: get_current_comic_def)
  next
    case (Inr o1)
    show ?thesis
    proof (cases o1)
      case None
      with f ft Inr show ?thesis by (simp add: get_current_comic_def)
    next
      case (Some soup)
      obtain r2 t2 where e: "extract_comic_data t1 soup = (r2, t2)"
        by (cases "extract_comic_data t1 soup")
      note et = extract_comic_data_text_writes [OF e]
      show ?thesis
      proof (cases r2)
        case None
        with f ft Inr Some e et show ?thesis by (simp add: get_current_comic_def)
      next
        case d: (Some d)
        obtain r3 t3 where dl: "download_image w t2 (image_url d) = (r3, t3)"
          by (cases "download_image w t2 (image_url d)")
        note dt = download_image_text_writes [OF dl]
        obtain ext where x: "get_file_extension (image_url d) = Inr ext"
          using get_file_extension_total by blast
        obtain r4 t4
          where s: "save_image w t3 (the (projr r3)) (sanitize_filename (title d) @ ''.'' @ ext)
                      = (r4, t4)"
          by (cases "save_image w t3 (the (projr r3)) (sanitize_filename (title d) @ ''.'' @ ext)")
        note st = save_image_text_writes [OF s]
        from f ft Inr Some e et d dl dt x s st show ?thesis
          by (auto simp: get_current_comic_def Let_def split: sum.splits option.splits)
      qed
    qed
  qed
qed

text \<open>
  C7. \<open>get_current_comic\<close> never writes a text file, whatever happens: the transcript is
  not saved. A successful run is exactly the request of the site root, the request of
  the image, one binary write to \<open>sanitized_title.ext\<close> and the status line, the same
  fetch, extract, download, save sequence as \<open>get_comic\<close> without the transcript step; the
  image file is the only file written.
\<close>

theorem get_current_comic_writes_only_image:
  "text_writes_of (snd (get_current_comic w tr)) = text_writes_of tr
   \<and> (get_current_comic w tr = (Inr True, t) \<longrightarrow>
        (\<exists>soup d data ext.
           fetch_webpage w tr XKCD_BASE_URL = (Inr (Some soup), tr @ [HttpGet XKCD_BASE_URL])
           \<and> extract_comic_data (tr @ [HttpGet XKCD_BASE_URL]) soup
                = (Some d, tr @ [HttpGet XKCD_BASE_URL])
           \<and> get_file_extension (image_url d) = Inr ext
           \<and> t = tr @ [HttpGet XKCD_BASE_URL,
                  HttpGet (if startswith (image_url d) ''//'' then ''https:'' @ image_url d
                           else image_url d),
                  WriteBinary (sanitize_filename (title d) @ ''.'' @ ext) data,
                  Print (''Successfully downloaded current comic: '' @ title d)]
           \<and> writes_of t = writes_of tr @ [sanitize_filename (title d) @ ''.'' @ ext]))"
proof (intro conjI impI)
  show "text_writes_of (snd (get_current_comic w tr)) = text_writes_of tr"
    by (rule get_current_comic_no_text_write)
next
  assume a: "get_current_comic w tr = (Inr True, t)"
  then show "\<exists>soup d data ext.
           fetch_webpage w tr XKCD_BASE_URL = (Inr (Some soup), tr @ [HttpGet XKCD_BASE_URL])
           \<and> extract_comic_data (tr @ [HttpGet XKCD_BASE_URL]) soup
                = (Some d, tr @ [HttpGet XKCD_BASE_URL])
           \<and> get_file_extension (image_url d) = Inr ext
           \<and> t = tr @ [HttpGet XKCD_BASE_URL,
                  HttpGet (if startswith (image_url d) ''//'' then ''https:'' @ image_url d
                           else image_url d),
                  WriteBinary (sanitize_filename (title d) @ ''.'' @ ext) data,
                  Print (''Successfully downloaded current comic: '' @ title d)]
           \<and> writes_of t = writes_of tr @ [sanitize_filename (title d) @ ''.'' @ ext]"
    by (rule get_current_comic_success)
qed

theorem get_current_comic_writes_only_image_witness:
  "get_current_comic (sample_world (sample_net 200 200) sample_soup []) [] =
     (Inr True, [HttpGet ''https://xkcd.com/'',
                 HttpGet ''https://imgs.xkcd.com/comics/test_comic.png'',
                 WriteBinary ''Test Comic.png'' ''PNGDATA'',
                 Print ''Successfully downloaded current comic: Test Comic''])
   \<and> writes_of [HttpGet ''https://xkcd.com/'',
                 HttpGet ''https://imgs.xkcd.com/comics/test_comic.png'',
                 WriteBinary ''Test Comic.png'' ''PNGDATA'',
                 Print ''Successfully downloaded current comic: Test Comic''] = [''Test Comic.png'']
   \<and> text_writes_of (snd (get_current_comic (sample_world (sample_net 200 200) sample_soup []) []))
       = []"
proof -
  let ?w = "sample_world (sample_net 200 200) sample_soup []"
  let ?t = "[HttpGet ''https://xkcd.com/'',
             HttpGet ''https://imgs.xkcd.com/comics/test_comic.png'',
             WriteBinary ''Test Comic.png'' ''PNGDATA'',
             Print ''Successfully downloaded current comic: Test Comic'']"
  have run: "get_current_comic ?w [] = (Inr True, ?t)"
    by (simp add: get_current_comic_def sample_defs step_defs)
  note inst = get_current_comic_writes_only_image [of ?w "[]" ?t]
  from inst have tw: "text_writes_of (snd (get_current_comic ?w [])) = text_writes_of []"
    by (rule conjunct1)
  from inst [THEN conjunct2, THEN mp, OF run] obtain d :: comic_data and ext
    where "?t = [] @ [HttpGet XKCD_BASE_URL,
                  HttpGet (if startswith (image_url d) ''//'' then ''https:'' @ image_url d
                           else image_url d),
                  WriteBinary (sanitize_filename (title d) @ ''.'' @ ext) ''PNGDATA'',
                  Print (''Successfully downloaded current comic: '' @ title d)]"
      and "writes_of ?t = writes_of [] @ [sanitize_filename (title d) @ ''.'' @ ext]"
    by auto
  then have "writes_of ?t = [''Test Comic.png'']" by simp
  with run tw show ?thesis by simp
qed

subsection \<open>update_readme.py: the most recent date\<close>

lemma hd_rev_sort_Max:
  fixes xs :: "'a::linorder list"
  assumes "xs \<noteq> []"
  shows "hd (rev (sort xs)) = Max (set xs)"
proof -
  from assms have ne: "sort xs \<noteq> []" by (metis length_sort length_0_conv)
  then have "hd (rev (sort xs)) = last (sort xs)" by (simp add: hd_rev)
  also have "\<dots> = Max (set xs)"
  proof (rule Max_eqI [symmetric])
    show "finite (set xs)" by simp
    show "last (sort xs) \<in> set xs" using last_in_set [OF ne] by simp
    fix y assume "y \<in> set xs"
    then have "y \<in> set (sort xs)" by simp
    then show "y \<le> last (sort xs)"
      using sorted_sort [of xs] ne
      by (metis in_set_conv_nth last_conv_nth sorted_nth_mono Suc_pred' length_greater_0_conv less_Suc_eq_le diff_less zero_less_one)
  qed
  finally show ?thesis .
qed

lemma sorted_descending: "sorted_wrt (\<lambda>a b. b \<le> a) (rev (sort (xs :: 'a::linorder list)))"
  using sorted_sort [of xs] by (simp add: sorted_wrt_rev)

lemma get_most_recent_comic_no_data_dir:
  "\<not> path_exists w (os_path_join (project_root w) ''data'') \<Longrightarrow>
   get_most_recent_comic w tr =
     (Inr None, tr @ [Print (''Data directory not found: '' @ os_path_join (project_root w) ''data'')])"
  by (simp add: get_most_recent_comic_def)

lemma get_most_recent_comic_no_dirs:
  "path_exists w (os_path_join (project_root w) ''data'') \<Longrightarrow>
   listdir w (os_path_join (project_root w) ''data'') = Inr names \<Longrightarrow>
   filter (\<lambda>d. isdir w (os_path_join (os_path_join (project_root w) ''data'') d)) names = [] \<Longrightarrow>
   get_most_recent_comic w tr =
     (Inr None, tr @ [Print ''No date directories found in data folder''])"
  by (simp add: get_most_recent_comic_def)

lemma get_most_recent_comic_no_png:
  assumes "path_exists w (os_path_join (project_root w) ''data'')"
    and "listdir w (os_path_join (project_root w) ''data'') = Inr names"
    and "dirs = filter (\<lambda>d. isdir w (os_path_join (os_path_join (project_root w) ''data'') d)) names"
    and "dirs \<noteq> []"
    and "glob_glob w (os_path_join (os_path_join (os_path_join (project_root w) ''data'')
           (Max (set dirs))) ''*.png'') = []"
  shows "get_most_recent_comic w tr =
     (Inr None, tr @ [Print (''No PNG files found in ''
        @ os_path_join (os_path_join (project_root w) ''data'') (Max (set dirs)))])"
proof -
  have sel: "hd (rev (sort dirs)) = Max (set dirs)" using assms(4) by (rule hd_rev_sort_Max)
  have ne: "sort dirs \<noteq> []" using assms(4) by (metis length_sort length_0_conv)
  from assms(1,2,5) sel ne show ?thesis
    by (simp add: get_most_recent_comic_def Let_def assms(3) [symmetric])
qed

lemma get_most_recent_comic_found:
  assumes "path_exists w (os_path_join (project_root w) ''data'')"
    and "listdir w (os_path_join (project_root w) ''data'') = Inr names"
    and "dirs = filter (\<lambda>d. isdir w (os_path_join (os_path_join (project_root w) ''data'') d)) names"
    and "dirs \<noteq> []"
    and "glob_glob w (os_path_join (os_path_join (os_path_join (project_root w) ''data'')
           (Max (set dirs))) ''*.png'') = image_path # rest"
  shows "get_most_recent_comic w tr =
     (Inr (Some (Max (set dirs), path_stem image_path,
                 replace_char CHR '' '' ''%20'' (relpath w image_path (project_root w)))), tr)"
proof -
  have sel: "hd (rev (sort dirs)) = Max (set dirs)" using assms(4) by (rule hd_rev_sort_Max)
  have ne: "sort dirs \<noteq> []" using assms(4) by (metis length_sort length_0_conv)
  from assms(1,2,5) sel ne show ?thesis
    by (simp add: get_most_recent_comic_def Let_def assms(3) [symmetric])
qed

text \<open>
  C3. When the data directory exists and has at least one subdirectory,
  \<open>get_most_recent_comic\<close> sorts the subdirectory names in descending string order and
  takes the first, which is the greatest name in the lexicographic order on strings: it
  is the date of the result when that directory holds a PNG file, and the directory named
  in the message when it holds none. With the directories \<open>2024-01-05\<close>, \<open>2024-01-20\<close>
  and \<open>2023-12-31\<close> the selection is \<open>2024-01-20\<close>.
\<close>

theorem get_most_recent_comic_selects_greatest:
  "path_exists w (os_path_join (project_root w) ''data'')
   \<and> listdir w (os_path_join (project_root w) ''data'') = Inr names
   \<and> dirs = filter (\<lambda>d. isdir w (os_path_join (os_path_join (project_root w) ''data'') d)) names
   \<and> dirs \<noteq> []
   \<longrightarrow>
     sorted_wrt (\<lambda>a b. b \<le> a) (rev (sort dirs))
     \<and> hd (rev (sort dirs)) = Max (set dirs)
     \<and> Max (set dirs) \<in> set dirs
     \<and> (\<forall>d \<in> set dirs. d \<le> Max (set dirs))
     \<and> (\<forall>image_path rest.
          glob_glob w (os_path_join (os_path_join (os_path_join (project_root w) ''data'')
             (Max (set dirs))) ''*.png'') = image_path # rest \<longrightarrow>
          get_most_recent_comic w tr =
            (Inr (Some (Max (set dirs), path_stem image_path,
                        replace_char CHR '' '' ''%20'' (relpath w image_path (project_root w)))), tr))
     \<and> (glob_glob w (os_path_join (os_path_join (os_path_join (project_root w) ''data'')
             (Max (set dirs))) ''*.png'') = [] \<longrightarrow>
          get_most_recent_comic w tr =
            (Inr None, tr @ [Print (''No PNG files found in ''
               @ os_path_join (os_path_join (project_root w) ''data'') (Max (set dirs)))]))"
proof (intro impI, elim conjE)
  assume a: "path_exists w (os_path_join (project_root w) ''data'')"
    "listdir w (os_path_join (project_root w) ''data'') = Inr names"
    "dirs = filter (\<lambda>d. isdir w (os_path_join (os_path_join (project_root w) ''data'') d)) names"
    "dirs \<noteq> []"
  have p1: "sorted_wrt (\<lambda>a b. b \<le> a) (rev (sort dirs))" by (rule sorted_descending)
  have p2: "hd (rev (sort dirs)) = Max (set dirs)" using a(4) by (rule hd_rev_sort_Max)
  have p3: "Max (set dirs) \<in> set dirs" using a(4) by (intro Max_in) simp_all
  have p4: "\<forall>d \<in> set dirs. d \<le> Max (set dirs)" by simp
  have p5: "\<forall>image_path rest.
          glob_glob w (os_path_join (os_path_join (os_path_join (project_root w) ''data'')
             (Max (set dirs))) ''*.png'') = image_path # rest \<longrightarrow>
          get_most_recent_comic w tr =
            (Inr (Some (Max (set dirs), path_stem image_path,
                        replace_char CHR '' '' ''%20'' (relpath w image_path (project_root w)))), tr)"
    using get_most_recent_comic_found [OF a] by blast
  have p6: "glob_glob w (os_path_join (os_path_join (os_path_join (project_root w) ''data'')
             (Max (set dirs))) ''*.png'') = [] \<longrightarrow>
          get_most_recent_comic w tr =
            (Inr None, tr @ [Print (''No PNG files found in ''
               @ os_path_join (os_path_join (project_root w) ''data'') (Max (set dirs)))])"
    using get_most_recent_comic_no_png [OF a] by blast
  from p1 p2 p3 p4 p5 p6
  show "sorted_wrt (\<lambda>a b. b \<le> a) (rev (sort dirs))
     \<and> hd (rev (sort dirs)) = Max (set dirs)
     \<and> Max (set dirs) \<in> set dirs
     \<and> (\<forall>d \<in> set dirs. d \<le> Max (set dirs))
     \<and> (\<forall>image_path rest.
          glob_glob w (os_path_join (os_path_join (os_path_join (project_root w) ''data'')
             (Max (set dirs))) ''*.png'') = image_path # rest \<longrightarrow>
          get_most_recent_comic w tr =
            (Inr (Some (Max (set dirs), path_stem image_path,
                        replace_char CHR '' '' ''%20'' (relpath w image_path (project_root w)))), tr))
     \<and> (glob_glob w (os_path_join (os_path_join (os_path_join (project_root w) ''data'')
             (Max (set dirs))) ''*.png'') = [] \<longrightarrow>
          get_most_recent_comic w tr =
            (Inr None, tr @ [Print (''No PNG files found in ''
               @ os_path_join (os_path_join (project_root w) ''data'') (Max (set dirs)))]))"
    by (intro conjI)
qed

lemmas path_defs = os_path_join_def startswith_def endswith_def path_stem_def path_name_def
  rfind_def replace_char_def

theorem get_most_recent_comic_selects_greatest_witness:
  "Max (set [''2024-01-05'', ''2024-01-20'', ''2023-12-31'']) = ''2024-01-20''
   \<and> get_most_recent_comic
        (sample_world unreachable_net sample_soup [''/repo/data/2024-01-20/Test Comic.png'']) [] =
       (Inr (Some (''2024-01-20'', ''Test Comic'', ''data/2024-01-20/Test%20Comic.png'')), [])
   \<and> get_most_recent_comic (sample_world unreachable_net sample_soup []) [] =
       (Inr None, [Print ''No PNG files found in /repo/data/2024-01-20''])"
proof -
  let ?names = "[''2024-01-05'', ''2024-01-20'', ''2023-12-31'']"
  let ?w1 = "sample_world unreachable_net sample_soup [''/repo/data/2024-01-20/Test Comic.png'']"
  let ?w2 = "sample_world unreachable_net sample_soup []"
  have m: "Max (set ?names) = ''2024-01-20''" by simp
  have h1: "path_exists ?w1 (os_path_join (project_root ?w1) ''data'')
     \<and> listdir ?w1 (os_path_join (project_root ?w1) ''data'') = Inr ?names
     \<and> ?names = filter (\<lambda>d. isdir ?w1 (os_path_join (os_path_join (project_root ?w1) ''data'') d)) ?names
     \<and> ?names \<noteq> []"
    by (simp add: sample_world_def path_defs)
  have h2: "path_exists ?w2 (os_path_join (project_root ?w2) ''data'')
     \<and> listdir ?w2 (os_path_join (project_root ?w2) ''data'') = Inr ?names
     \<and> ?names = filter (\<lambda>d. isdir ?w2 (os_path_join (os_path_join (project_root ?w2) ''data'') d)) ?names
     \<and> ?names \<noteq> []"
    by (simp add: sample_world_def path_defs)
  have g1: "glob_glob ?w1 (os_path_join (os_path_join (os_path_join (project_root ?w1) ''data'')
             (Max (set ?names))) ''*.png'') = ''/repo/data/2024-01-20/Test Comic.png'' # []"
    unfolding m by (simp add: sample_world_def path_defs)
  have g2: "glob_glob ?w2 (os_path_join (os_path_join (os_path_join (project_root ?w2) ''data'')
             (Max (set ?names))) ''*.png'') = []"
    unfolding m by (simp add: sample_world_def path_defs)
  note r1 = get_most_recent_comic_selects_greatest [of ?w1 ?names ?names "[]", THEN mp, OF h1]
  note r2 = get_most_recent_comic_selects_greatest [of ?w2 ?names ?names "[]", THEN mp, OF h2]
  from r1 g1 have c1: "get_most_recent_comic ?w1 [] =
       (Inr (Some (Max (set ?names), path_stem ''/repo/data/2024-01-20/Test Comic.png'',
          replace_char CHR '' '' ''%20''
            (relpath ?w1 ''/repo/data/2024-01-20/Test Comic.png'' (project_root ?w1)))), [])"
    by blast
  from r2 g2 have c2: "get_most_recent_comic ?w2 [] =
       (Inr None, [] @ [Print (''No PNG files found in ''
               @ os_path_join (os_path_join (project_root ?w2) ''data'') (Max (set ?names)))])"
    by blast
  have e1: "get_most_recent_comic ?w1 [] =
       (Inr (Some (''2024-01-20'', ''Test Comic'', ''data/2024-01-20/Test%20Comic.png'')), [])"
    unfolding c1 m by (simp add: sample_world_def path_defs)
  have e2: "get_most_recent_comic ?w2 [] =
       (Inr None, [Print ''No PNG files found in /repo/data/2024-01-20''])"
    unfolding c2 m by (simp add: sample_world_def path_defs)
  from m e1 e2 show ?thesis by (intro conjI)
qed

subsection \<open>update_readme.py: nothing to show, nothing written\<close>

lemma update_readme_None:
  "get_most_recent_comic w tr = (Inr None, t1) \<Longrightarrow>
   update_readme w tr = (Inr (), t1 @ [Print ''No comic found to update README''])"
  by (simp add: update_readme_def)

lemma update_readme_None_writes:
  assumes "fst (get_most_recent_comic w tr) = Inr None"
  shows "writes_of (snd (update_readme w tr)) = writes_of tr"
proof -
  obtain t1 where g: "get_most_recent_comic w tr = (Inr None, t1)"
    using assms by (cases "get_most_recent_comic w tr") simp
  then have "\<exists>line. t1 = tr @ [Print line]"
    by (auto simp: get_most_recent_comic_def Let_def split: if_splits sum.splits)
  with update_readme_None [OF g] show ?thesis by auto
qed

text \<open>
  C8. When the data directory is missing, or has no subdirectory, or the most recent
  date directory has no file matching \<open>*.png\<close>, \<open>update_readme\<close> prints the message of
  \<open>get_most_recent_comic\<close> and its own, returns, and opens no file for writing:
  \<open>README.md\<close> is left as it was.
\<close>

theorem update_readme_without_comic_writes_nothing:
  "(\<not> path_exists w (os_path_join (project_root w) ''data'') \<longrightarrow>
      update_readme w tr =
        (Inr (), tr @ [Print (''Data directory not found: '' @ os_path_join (project_root w) ''data''),
                       Print ''No comic found to update README'']))
   \<and> (path_exists w (os_path_join (project_root w) ''data'')
       \<and> listdir w (os_path_join (project_root w) ''data'') = Inr names
       \<and> filter (\<lambda>d. isdir w (os_path_join (os_path_join (project_root w) ''data'') d)) names = []
       \<longrightarrow>
      update_readme w tr =
        (Inr (), tr @ [Print ''No date directories found in data folder'',
                       Print ''No comic found to update README'']))
   \<and> (path_exists w (os_path_join (project_root w) ''data'')
       \<and> listdir w (os_path_join (project_root w) ''data'') = Inr names
       \<and> dirs = filter (\<lambda>d. isdir w (os_path_join (os_path_join (project_root w) ''data'') d)) names
       \<and> dirs \<noteq> []
       \<and> glob_glob w (os_path_join (os_path_join (os_path_join (project_root w) ''data'')
             (Max (set dirs))) ''*.png'') = []
       \<longrightarrow>
      update_readme w tr =
        (Inr (), tr @ [Print (''No PNG files found in ''
                         @ os_path_join (os_path_join (project_root w) ''data'') (Max (set dirs))),
                       Print ''No comic found to update README'']))
   \<and> (fst (get_most_recent_comic w tr) = Inr None \<longrightarrow>
        writes_of (snd (update_readme w tr)) = writes_of tr)"
proof (intro conjI impI; (elim conjE)?)
  assume "\<not> path_exists w (os_path_join (project_root w) ''data'')"
  then show "update_readme w tr =
        (Inr (), tr @ [Print (''Data directory not found: '' @ os_path_join (project_root w) ''data''),
                       Print ''No comic found to update README''])"
    using update_readme_None [OF get_most_recent_comic_no_data_dir] by simp
next
  assume "path_exists w (os_path_join (project_root w) ''data'')"
    "listdir w (os_path_join (project_root w) ''data'') = Inr names"
    "filter (\<lambda>d. isdir w (os_path_join (os_path_join (project_root w) ''data'') d)) names = []"
  then show "update_readme w tr =
        (Inr (), tr @ [Print ''No date directories found in data folder'',
                       Print ''No comic found to update README''])"
    using update_readme_None [OF get_most_recent_comic_no_dirs] by simp
next
  assume "path_exists w (os_path_join (project_root w) ''data'')"
    "listdir w (os_path_join (project_root w) ''data'') = Inr names"
    "dirs = filter (\<lambda>d. isdir w (os_path_join (os_path_join (project_root w) ''data'') d)) names"
    "dirs \<noteq> []"
    "glob_glob w (os_path_join (os_path_join (os_path_join (project_root w) ''data'')
             (Max (set dirs))) ''*.png'') = []"
  then show "update_readme w tr =
        (Inr (), tr @ [Print (''No PNG files found in ''
                         @ os_path_join (os_path_join (project_root w) ''data'') (Max (set dirs))),
                       Print ''No comic found to update README''])"
    using update_readme_None [OF get_most_recent_comic_no_png] by simp
next
  assume "fst (get_most_recent_comic w tr) = Inr None"
  then show "writes_of (snd (update_readme w tr)) = writes_of tr"
    by (rule update_readme_None_writes)
qed

theorem update_readme_without_comic_writes_nothing_witness:
  "update_readme ((sample_world unreachable_net sample_soup [])\<lparr>path_exists := (\<lambda>_. False)\<rparr>) [] =
     (Inr (), [Print ''Data directory not found: /repo/data'',
               Print ''No comic found to update README''])
   \<and> update_readme ((sample_world unreachable_net sample_soup [])\<lparr>isdir := (\<lambda>_. False)\<rparr>) [] =
     (Inr (), [Print ''No date directories found in data folder'',
               Print ''No comic found to update README''])
   \<and> update_readme (sample_world unreachable_net sample_soup []) [] =
     (Inr (), [Print ''No PNG files found in /repo/data/2024-01-20'',
               Print ''No comic found to update README''])
   \<and> writes_of (snd (update_readme (sample_world unreachable_net sample_soup []) [])) = []
   \<and> writes_of (snd (update_readme
         (sample_world unreachable_net sample_soup [''/repo/data/2024-01-20/Test Comic.png'']) []))
       = [''/repo/README.md'']"
proof -
  let ?names = "[''2024-01-05'', ''2024-01-20'', ''2023-12-31'']"
  let ?w = "sample_world unreachable_net sample_soup []"
  let ?w1 = "?w\<lparr>path_exists := (\<lambda>_. False)\<rparr>"
  let ?w2 = "?w\<lparr>isdir := (\<lambda>_. False)\<rparr>"
  let ?w4 = "sample_world unreachable_net sample_soup [''/repo/data/2024-01-20/Test Comic.png'']"
  have m: "Max (set ?names) = ''2024-01-20''" by simp
  have h1: "\<not> path_exists ?w1 (os_path_join (project_root ?w1) ''data'')"
    by (simp add: sample_world_def)
  have h2: "path_exists ?w2 (os_path_join (project_root ?w2) ''data'')
       \<and> listdir ?w2 (os_path_join (project_root ?w2) ''data'') = Inr ?names
       \<and> filter (\<lambda>d. isdir ?w2 (os_path_join (os_path_join (project_root ?w2) ''data'') d)) ?names = []"
    by (simp add: sample_world_def path_defs)
  have h3: "path_exists ?w (os_path_join (project_root ?w) ''data'')
       \<and> listdir ?w (os_path_join (project_root ?w) ''data'') = Inr ?names
       \<and> ?names = filter (\<lambda>d. isdir ?w (os_path_join (os_path_join (project_root ?w) ''data'') d)) ?names
       \<and> ?names \<noteq> []
       \<and> glob_glob ?w (os_path_join (os_path_join (os_path_join (project_root ?w) ''data'')
             (Max (set ?names))) ''*.png'') = []"
    unfolding m by (simp add: sample_world_def path_defs)
  note i1 = update_readme_without_comic_writes_nothing [of ?w1 "[]", THEN conjunct1, THEN mp, OF h1]
  note i2 = update_readme_without_comic_writes_nothing [of ?w2 "[]" ?names, THEN conjunct2,
      THEN conjunct1, THEN mp, OF h2]
  note i3 = update_readme_without_comic_writes_nothing [of ?w "[]" ?names ?names, THEN conjunct2,
      THEN conjunct2, THEN conjunct1, THEN mp, OF h3]
  have c1: "update_readme ?w1 [] =
     (Inr (), [Print ''Data directory not found: /repo/data'',
               Print ''No comic found to update README''])"
    using i1 by (simp add: sample_world_def path_defs)
  have c2: "update_readme ?w2 [] =
     (Inr (), [Print ''No date directories found in data folder'',
               Print ''No comic found to update README''])"
    using i2 by simp
  have c3: "update_readme ?w [] =
     (Inr (), [Print ''No PNG files found in /repo/data/2024-01-20'',
               Print ''No comic found to update README''])"
    using i3 unfolding m by (simp add: sample_world_def path_defs)
  have h4: "fst (get_most_recent_comic ?w []) = Inr None"
    by (simp add: get_most_recent_comic_def sample_world_def path_defs Let_def)
  have c4: "writes_of (snd (update_readme ?w [])) = []"
    using update_readme_without_comic_writes_nothing [of ?w "[]" ?names ?names, THEN conjunct2,
      THEN conjunct2, THEN conjunct2, THEN mp, OF h4]
    by simp
  have g: "get_most_recent_comic ?w4 [] =
       (Inr (Some (''2024-01-20'', ''Test Comic'', ''data/2024-01-20/Test%20Comic.png'')), [])"
    by (simp add: get_most_recent_comic_def sample_world_def path_defs Let_def)
  have c5: "writes_of (snd (update_readme ?w4 [])) = [''/repo/README.md'']"
    by (simp add: update_readme_def g Let_def) (simp add: sample_world_def path_defs)
  from c1 c2 c3 c4 c5 show ?thesis by (intro conjI)
qed

subsection \<open>what_xkcd.py: the unbound name\<close>

lemma run_imports_result:
  "run_imports imp imps g = Inr g' \<Longrightarrow> g' = g @ concat (map snd imps)"
  by (induction imp imps g rule: run_imports.induct) (auto split: if_splits)

lemma run_imports_all_importable:
  "\<forall>m \<in> set (map fst imps). imp m \<Longrightarrow> run_imports imp imps g = Inr (g @ concat (map snd imps))"
  by (induction imp imps g rule: run_imports.induct) auto

lemma xkdc_scraper_unbound:
  "load_name script_globals ''xkdc_scraper'' =
     Inl (NameError (''name '' @ quoted ''xkdc_scraper'' @ '' is not defined''))"
  by (simp add: load_name_def script_globals_def initial_globals_def script_imports_def
        builtin_names_def)

lemma scraper_bound: "load_name script_globals ''scraper'' = Inr ()"
  by (simp add: load_name_def script_globals_def initial_globals_def script_imports_def)

lemma main_block_raises:
  "main_block w d script_globals tr =
     (Inl (NameError (''name '' @ quoted ''xkdc_scraper'' @ '' is not defined'')), tr)"
  by (simp add: main_block_def xkdc_scraper_unbound)

lemma what_xkcd_imports_ok:
  assumes "\<forall>m \<in> set (map fst script_imports). importable d m"
  shows "what_xkcd w d tr =
     (Inl (NameError (''name '' @ quoted ''xkdc_scraper'' @ '' is not defined'')), tr)"
  using run_imports_all_importable [OF assms, of initial_globals] main_block_raises [of w d tr]
  by (simp add: what_xkcd_def script_globals_def)

lemma what_xkcd_always_raises: "\<exists>e. what_xkcd w d tr = (Inl e, tr)"
proof (cases "run_imports (importable d) script_imports initial_globals")
  case (Inl e)
  then show ?thesis by (simp add: what_xkcd_def)
next
  case (Inr g)
  from run_imports_result [OF Inr] main_block_raises [of w d tr] Inr show ?thesis
    by (simp add: what_xkcd_def script_globals_def)
qed

text \<open>
  C9. Every run of \<open>what_xkcd.py\<close> as \<open>__main__\<close> ends in an exception before any effect:
  no comic is chosen, resized, quantized or shown. Whenever the imports succeed, so that
  the \<open>__main__\<close> block is reached, the exception is the \<open>NameError\<close> for \<open>xkdc_scraper\<close>
  raised by line 23: the module is bound to the name \<open>scraper\<close>, which would be found,
  and nothing binds \<open>xkdc_scraper\<close>.
\<close>

theorem what_xkcd_raises_before_display:
  "(\<exists>e. what_xkcd w d tr = (Inl e, tr))
   \<and> display_events_of (snd (what_xkcd w d tr)) = display_events_of tr
   \<and> ((\<forall>m \<in> set (map fst script_imports). importable d m) \<longrightarrow>
        run_imports (importable d) script_imports initial_globals
          = Inr (initial_globals @ concat (map snd script_imports))
        \<and> load_name (initial_globals @ concat (map snd script_imports)
                       @ [''root'', ''choose_random_comic'']) ''scraper'' = Inr ()
        \<and> load_name (initial_globals @ concat (map snd script_imports)
                       @ [''root'', ''choose_random_comic'']) ''xkdc_scraper''
            = Inl (NameError (''name '' @ quoted ''xkdc_scraper'' @ '' is not defined''))
        \<and> what_xkcd w d tr =
            (Inl (NameError (''name '' @ quoted ''xkdc_scraper'' @ '' is not defined'')), tr))"
proof (intro conjI impI)
  show "\<exists>e. what_xkcd w d tr = (Inl e, tr)" by (rule what_xkcd_always_raises)
  then show "display_events_of (snd (what_xkcd w d tr)) = display_events_of tr" by auto
next
  assume a: "\<forall>m \<in> set (map fst script_imports). importable d m"
  show "run_imports (importable d) script_imports initial_globals
          = Inr (initial_globals @ concat (map snd script_imports))"
    using a by (rule run_imports_all_importable)
  show "load_name (initial_globals @ concat (map snd script_imports)
                       @ [''root'', ''choose_random_comic'']) ''scraper'' = Inr ()"
    using scraper_bound by (simp add: script_globals_def)
  show "load_name (initial_globals @ concat (map snd script_imports)
                       @ [''root'', ''choose_random_comic'']) ''xkdc_scraper''
            = Inl (NameError (''name '' @ quoted ''xkdc_scraper'' @ '' is not defined''))"
    using xkdc_scraper_unbound by (simp add: script_globals_def)
  show "what_xkcd w d tr =
            (Inl (NameError (''name '' @ quoted ''xkdc_scraper'' @ '' is not defined'')), tr)"
    using a by (rule what_xkcd_imports_ok)
qed

theorem what_xkcd_raises_before_display_witness:
  "map (importable sample_display) (map fst script_imports) = [True, True, True, True, True, True]
   \<and> what_xkcd (sample_world (sample_net 200 200) sample_soup []) sample_display [] =
       (Inl (NameError (''name '' @ quoted ''xkdc_scraper'' @ '' is not defined'')), [])
   \<and> display_events_of (snd (main_block (sample_world (sample_net 200 200) sample_soup [])
         sample_display [''xkdc_scraper''] [])) =
       [ListDir ''comics'', ImageOpen ''/home/pi/comics/Test Comic.png'', InkyInit ''black'',
        SetBorder, ImageResize 400 172, ImageCrop 0 (- 64) 400 236, Quantize, Rotate 180,
        SetImage, DisplayShow]"
proof -
  have h: "\<forall>m \<in> set (map fst script_imports). importable sample_display m"
    by (simp add: sample_display_def)
  from what_xkcd_raises_before_display [of "sample_world (sample_net 200 200) sample_soup []"
      sample_display "[]", THEN conjunct2, THEN conjunct2, THEN mp, OF h]
  have r: "what_xkcd (sample_world (sample_net 200 200) sample_soup []) sample_display [] =
       (Inl (NameError (''name '' @ quoted ''xkdc_scraper'' @ '' is not defined'')), [])"
    by simp
  have g: "get_current_comic (sample_world (sample_net 200 200) sample_soup []) [] =
     (Inr True, [HttpGet ''https://xkcd.com/'',
                 HttpGet ''https://imgs.xkcd.com/comics/test_comic.png'',
                 WriteBinary ''Test Comic.png'' ''PNGDATA'',
                 Print ''Successfully downloaded current comic: Test Comic''])"
    by (simp add: get_current_comic_def sample_defs step_defs)
  have m: "display_events_of (snd (main_block (sample_world (sample_net 200 200) sample_soup [])
         sample_display [''xkdc_scraper''] [])) =
       [ListDir ''comics'', ImageOpen ''/home/pi/comics/Test Comic.png'', InkyInit ''black'',
        SetBorder, ImageResize 400 172, ImageCrop 0 (- 64) 400 236, Quantize, Rotate 180,
        SetImage, DisplayShow]"
    by (simp add: main_block_def load_name_def g choose_random_comic_def randint_def
          sample_display_def render_comic_def int_half_def display_events_of_def
          os_path_join_def startswith_def endswith_def Let_def)
  have l: "map (importable sample_display) (map fst script_imports)
             = [True, True, True, True, True, True]"
    by (simp add: sample_display_def script_imports_def)
  from l r m show ?thesis by (intro conjI)
qed

end
